theory Spec2Isabelle
  imports Main "HOL-Library.Word"
begin

unbundle bit_operations_syntax

section \<open>Python strings\<close>

text \<open>
  A Python \<open>str\<close> is a sequence of Unicode code points, and \<open>len\<close> counts code points.
  A string is therefore a list of code points; \<open>py\<close> turns a literal into one.
\<close>

type_synonym codepoint = nat
type_synonym pystr = "codepoint list"
type_synonym byte = "8 word"

definition ord :: "char \<Rightarrow> codepoint" where
  "ord c = of_char c"

definition py :: "string \<Rightarrow> pystr" where
  "py s = map ord s"

text \<open>
  \<open>str.strip()\<close> without argument removes leading and trailing whitespace, where
  whitespace is what \<open>str.isspace\<close> accepts: the code points below.
\<close>

definition isspace :: "codepoint \<Rightarrow> bool" where
  "isspace c \<longleftrightarrow>
     (0x09 \<le> c \<and> c \<le> 0x0D) \<or> (0x1C \<le> c \<and> c \<le> 0x20) \<or> c = 0x85 \<or> c = 0xA0 \<or>
     c = 0x1680 \<or> (0x2000 \<le> c \<and> c \<le> 0x200A) \<or> c = 0x2028 \<or> c = 0x2029 \<or>
     c = 0x202F \<or> c = 0x205F \<or> c = 0x3000"

definition strip :: "pystr \<Rightarrow> pystr" where
  "strip s = rev (dropWhile isspace (rev (dropWhile isspace s)))"

text \<open>
  \<open>str.lower()\<close>. ASCII and Latin-1 capitals move down by 32; U+0130 and U+212A are the
  two code points beyond ASCII whose lowercase form contains an ASCII letter. Every other
  code point beyond U+00FF lowercases, in Python, to code points beyond ASCII; they are
  left in place here, which does not change where ASCII letters stand in the result.
\<close>

definition lower_cp :: "codepoint \<Rightarrow> pystr" where
  "lower_cp c =
     (if 0x41 \<le> c \<and> c \<le> 0x5A then [c + 32]
      else if 0xC0 \<le> c \<and> c \<le> 0xDE \<and> c \<noteq> 0xD7 then [c + 32]
      else if c = 0x130 then [0x69, 0x307]
      else if c = 0x212A then [0x6B]
      else [c])"

definition lower :: "pystr \<Rightarrow> pystr" where
  "lower s = concat (map lower_cp s)"

text \<open>The substring test \<open>sub in s\<close>.\<close>

fun starts_with :: "pystr \<Rightarrow> pystr \<Rightarrow> bool" where
  "starts_with [] s = True"
| "starts_with (x # xs) [] = False"
| "starts_with (x # xs) (c # cs) = (x = c \<and> starts_with xs cs)"

fun str_in :: "pystr \<Rightarrow> pystr \<Rightarrow> bool" where
  "str_in sub [] = (sub = [])"
| "str_in sub (c # cs) = (starts_with sub (c # cs) \<or> str_in sub cs)"

section \<open>Username validation\<close>

text \<open>
  \<open>_validate_username\<close>:
  \<^verbatim>\<open>bool(name and 3 <= len(name) <= 16 and re.fullmatch(r"[A-Za-z0-9_]+", name))\<close>.
  The character class is the three ranges and the underscore; \<open>fullmatch\<close> of
  \<open>[...]+\<close> asks for one or more characters, all of them in the class.
\<close>

definition char_class :: "codepoint \<Rightarrow> bool" where
  "char_class c \<longleftrightarrow>
     (ord CHR ''A'' \<le> c \<and> c \<le> ord CHR ''Z'') \<or> (ord CHR ''a'' \<le> c \<and> c \<le> ord CHR ''z'') \<or>
     (ord CHR ''0'' \<le> c \<and> c \<le> ord CHR ''9'') \<or> c = ord CHR ''_''"

fun fullmatch_class_plus :: "pystr \<Rightarrow> bool" where
  "fullmatch_class_plus [] = False"
| "fullmatch_class_plus [c] = char_class c"
| "fullmatch_class_plus (c # cs) = (char_class c \<and> fullmatch_class_plus cs)"

definition validate_username :: "pystr \<Rightarrow> bool" where
  "validate_username name \<longleftrightarrow>
     name \<noteq> [] \<and> 3 \<le> length name \<and> length name \<le> 16 \<and> fullmatch_class_plus name"

text \<open>
  The specification's wording of the character rule: the ASCII letters, the digits and
  the underscore, written out.
\<close>

definition ascii_word_chars :: "codepoint set" where
  "ascii_word_chars =
     set (py ''ABCDEFGHIJKLMNOPQRSTUVWXYZabcdefghijklmnopqrstuvwxyz0123456789_'')"

section \<open>Exceptions\<close>

text \<open>
  The exceptions that the launch handler can meet. \<open>LibraryError\<close> is an exception
  raised inside the external launcher library or the process spawner, with its message.
\<close>

datatype pyexc = UnicodeEncodeError | ValueError | AttributeError | LibraryError pystr

section \<open>UTF-8\<close>

text \<open>
  \<open>str.encode()\<close>: UTF-8, strict. A surrogate code point raises
  \<open>UnicodeEncodeError\<close>; a number above U+10FFFF is no code point of a Python string
  and is refused in the same way.
\<close>

definition utf8_cp :: "codepoint \<Rightarrow> pyexc + byte list" where
  "utf8_cp c =
     (if c < 0x80 then Inr [of_nat c]
      else if c < 0x800 then Inr [of_nat (0xC0 + c div 64), of_nat (0x80 + c mod 64)]
      else if 0xD800 \<le> c \<and> c \<le> 0xDFFF then Inl UnicodeEncodeError
      else if c < 0x10000 then
        Inr [of_nat (0xE0 + c div 4096), of_nat (0x80 + c div 64 mod 64), of_nat (0x80 + c mod 64)]
      else if c < 0x110000 then
        Inr [of_nat (0xF0 + c div 262144), of_nat (0x80 + c div 4096 mod 64),
             of_nat (0x80 + c div 64 mod 64), of_nat (0x80 + c mod 64)]
      else Inl UnicodeEncodeError)"

fun encode :: "pystr \<Rightarrow> pyexc + byte list" where
  "encode [] = Inr []"
| "encode (c # cs) =
     (case utf8_cp c of
        Inl e \<Rightarrow> Inl e
      | Inr bs \<Rightarrow> (case encode cs of Inl e \<Rightarrow> Inl e | Inr rest \<Rightarrow> Inr (bs @ rest)))"

section \<open>MD5\<close>

text \<open>
  \<open>hashlib.md5(data).digest()\<close>, the MD5 message digest of RFC 1321 on 32-bit words:
  padding to a multiple of 64 bytes, 64 steps on each block, and the four state words
  written out in little-endian order.
\<close>

type_synonym u32 = "32 word"
type_synonym md5_state = "u32 \<times> u32 \<times> u32 \<times> u32"

definition md5_s :: "nat list" where
  "md5_s = [7, 12, 17, 22, 7, 12, 17, 22, 7, 12, 17, 22, 7, 12, 17, 22,
            5, 9, 14, 20, 5, 9, 14, 20, 5, 9, 14, 20, 5, 9, 14, 20,
            4, 11, 16, 23, 4, 11, 16, 23, 4, 11, 16, 23, 4, 11, 16, 23,
            6, 10, 15, 21, 6, 10, 15, 21, 6, 10, 15, 21, 6, 10, 15, 21]"

definition md5_K :: "u32 list" where
  "md5_K = [0xd76aa478, 0xe8c7b756, 0x242070db, 0xc1bdceee, 0xf57c0faf, 0x4787c62a, 0xa8304613, 0xfd469501,
            0x698098d8, 0x8b44f7af, 0xffff5bb1, 0x895cd7be, 0x6b901122, 0xfd987193, 0xa679438e, 0x49b40821,
            0xf61e2562, 0xc040b340, 0x265e5a51, 0xe9b6c7aa, 0xd62f105d, 0x02441453, 0xd8a1e681, 0xe7d3fbc8,
            0x21e1cde6, 0xc33707d6, 0xf4d50d87, 0x455a14ed, 0xa9e3e905, 0xfcefa3f8, 0x676f02d9, 0x8d2a4c8a,
            0xfffa3942, 0x8771f681, 0x6d9d6122, 0xfde5380c, 0xa4beea44, 0x4bdecfa9, 0xf6bb4b60, 0xbebfbc70,
            0x289b7ec6, 0xeaa127fa, 0xd4ef3085, 0x04881d05, 0xd9d4d039, 0xe6db99e5, 0x1fa27cf8, 0xc4ac5665,
            0xf4292244, 0x432aff97, 0xab9423a7, 0xfc93a039, 0x655b59c3, 0x8f0ccc92, 0xffeff47d, 0x85845dd1,
            0x6fa87e4f, 0xfe2ce6e0, 0xa3014314, 0x4e0811a1, 0xf7537e82, 0xbd3af235, 0x2ad7d2bb, 0xeb86d391]"

definition rotl32 :: "u32 \<Rightarrow> nat \<Rightarrow> u32" where
  "rotl32 x n = push_bit n x OR drop_bit (32 - n) x"

definition md5_f :: "nat \<Rightarrow> u32 \<Rightarrow> u32 \<Rightarrow> u32 \<Rightarrow> u32" where
  "md5_f i b c d =
     (if i < 16 then (b AND c) OR (NOT b AND d)
      else if i < 32 then (d AND b) OR (NOT d AND c)
      else if i < 48 then b XOR c XOR d
      else c XOR (b OR NOT d))"

definition md5_g :: "nat \<Rightarrow> nat" where
  "md5_g i =
     (if i < 16 then i
      else if i < 32 then (5 * i + 1) mod 16
      else if i < 48 then (3 * i + 5) mod 16
      else (7 * i) mod 16)"

definition md5_step :: "u32 list \<Rightarrow> md5_state \<Rightarrow> nat \<Rightarrow> md5_state" where
  "md5_step m st i =
     (case st of (a, b, c, d) \<Rightarrow>
        (d, b + rotl32 (md5_f i b c d + a + md5_K ! i + m ! md5_g i) (md5_s ! i), b, c))"

definition le32 :: "byte \<Rightarrow> byte \<Rightarrow> byte \<Rightarrow> byte \<Rightarrow> u32" where
  "le32 b0 b1 b2 b3 =
     ucast b0 OR push_bit 8 (ucast b1) OR push_bit 16 (ucast b2) OR push_bit 24 (ucast b3)"

fun le_words :: "byte list \<Rightarrow> u32 list" where
  "le_words (b0 # b1 # b2 # b3 # bs) = le32 b0 b1 b2 b3 # le_words bs"
| "le_words bs = []"

definition md5_block :: "md5_state \<Rightarrow> byte list \<Rightarrow> md5_state" where
  "md5_block h blk =
     (case h of (a0, b0, c0, d0) \<Rightarrow>
        (case foldl (md5_step (le_words blk)) h [0..<64] of
           (a, b, c, d) \<Rightarrow> (a0 + a, b0 + b, c0 + c, d0 + d)))"

definition le_bytes32 :: "u32 \<Rightarrow> byte list" where
  "le_bytes32 w = [ucast w, ucast (drop_bit 8 w), ucast (drop_bit 16 w), ucast (drop_bit 24 w)]"

definition le_bytes64 :: "64 word \<Rightarrow> byte list" where
  "le_bytes64 w =
     [ucast w, ucast (drop_bit 8 w), ucast (drop_bit 16 w), ucast (drop_bit 24 w),
      ucast (drop_bit 32 w), ucast (drop_bit 40 w), ucast (drop_bit 48 w), ucast (drop_bit 56 w)]"

definition md5_pad :: "byte list \<Rightarrow> byte list" where
  "md5_pad msg =
     msg @ [0x80] @ replicate ((119 - length msg mod 64) mod 64) 0
       @ le_bytes64 (of_nat (8 * length msg))"

fun md5_blocks :: "nat \<Rightarrow> md5_state \<Rightarrow> byte list \<Rightarrow> md5_state" where
  "md5_blocks 0 h bs = h"
| "md5_blocks (Suc n) h bs = md5_blocks n (md5_block h (take 64 bs)) (drop 64 bs)"

definition md5 :: "byte list \<Rightarrow> byte list" where
  "md5 msg =
     (let p = md5_pad msg in
      case md5_blocks (length p div 64) (0x67452301, 0xefcdab89, 0x98badcfe, 0x10325476) p of
        (a, b, c, d) \<Rightarrow> le_bytes32 a @ le_bytes32 b @ le_bytes32 c @ le_bytes32 d)"

section \<open>UUID strings\<close>

text \<open>
  \<open>uuid.UUID(bytes=b)\<close> refuses anything but 16 bytes and reads them as one big-endian
  integer; \<open>str\<close> of the UUID formats that integer with \<^verbatim>\<open>'%032x'\<close> and cuts the 32
  digits into groups of 8, 4, 4, 4 and 12.
\<close>

definition int_from_bytes :: "byte list \<Rightarrow> nat" where
  "int_from_bytes bs = foldl (\<lambda>acc b. 256 * acc + unat b) 0 bs"

definition hex_digit :: "nat \<Rightarrow> codepoint" where
  "hex_digit d = (if d < 10 then ord CHR ''0'' + d else ord CHR ''a'' + (d - 10))"

fun hex :: "nat \<Rightarrow> pystr" where
  "hex n = (if n < 16 then [hex_digit n] else hex (n div 16) @ [hex_digit (n mod 16)])"

declare hex.simps [simp del]

text \<open>The last \<open>k\<close> hex digits of a number, most significant first.\<close>

fun hex_fixed :: "nat \<Rightarrow> nat \<Rightarrow> pystr" where
  "hex_fixed 0 n = []"
| "hex_fixed (Suc k) n = hex_fixed k (n div 16) @ [hex_digit (n mod 16)]"

definition format_032x :: "nat \<Rightarrow> pystr" where
  "format_032x n = replicate (32 - length (hex n)) (ord CHR ''0'') @ hex n"

definition uuid_from_bytes :: "byte list \<Rightarrow> pyexc + nat" where
  "uuid_from_bytes bs = (if length bs \<noteq> 16 then Inl ValueError else Inr (int_from_bytes bs))"

definition uuid_str :: "nat \<Rightarrow> pystr" where
  "uuid_str n =
     (let hex = format_032x n
      in take 8 hex @ py ''-'' @ take 4 (drop 8 hex) @ py ''-'' @ take 4 (drop 12 hex) @ py ''-''
         @ take 4 (drop 16 hex) @ py ''-'' @ drop 20 hex)"

section \<open>The offline session\<close>

record session =
  session_name :: pystr
  session_id :: pystr
  session_token :: pystr

text \<open>
  The offline branch of the session block of \<open>_launch\<close>: the digest of
  \<^verbatim>\<open>f"OfflinePlayer:{username}".encode()\<close> as a byte array, bytes 6 and 8 stamped, and
  the UUID of the result as a string.
\<close>

definition offline_digest :: "pystr \<Rightarrow> pyexc + byte list" where
  "offline_digest username =
     (case encode (py ''OfflinePlayer:'' @ username) of
        Inl e \<Rightarrow> Inl e
      | Inr bs \<Rightarrow>
          (let digest = md5 bs;
               digest = digest[6 := (digest ! 6 AND 0x0F) OR 0x30];
               digest = digest[8 := (digest ! 8 AND 0x3F) OR 0x80]
           in Inr digest))"

definition offline_uuid :: "pystr \<Rightarrow> pyexc + pystr" where
  "offline_uuid username =
     (case offline_digest username of
        Inl e \<Rightarrow> Inl e
      | Inr digest \<Rightarrow>
          (case uuid_from_bytes digest of
             Inl e \<Rightarrow> Inl e
           | Inr n \<Rightarrow> Inr (uuid_str n)))"

definition offline_session :: "pystr \<Rightarrow> pyexc + session" where
  "offline_session username =
     (case offline_uuid username of
        Inl e \<Rightarrow> Inl e
      | Inr u \<Rightarrow> Inr \<lparr>session_name = username, session_id = u, session_token = []\<rparr>)"

text \<open>
  The identifier as the specification words it: the digest of the UTF-8 bytes of
  \<open>"OfflinePlayer:" + username\<close>, byte 6 with high nibble 3 and its own low nibble, byte 8
  with top bits 10 and its own low six bits, and the 16 bytes as two lowercase hex digits
  each, hyphenated after bytes 4, 6, 8 and 10.
\<close>

definition spec_utf8 :: "pystr \<Rightarrow> byte list" where
  "spec_utf8 s = concat (map (\<lambda>c. case utf8_cp c of Inl e \<Rightarrow> [] | Inr bs \<Rightarrow> bs) s)"

definition spec_stamp :: "byte list \<Rightarrow> byte list" where
  "spec_stamp d =
     map (\<lambda>i. if i = 6 then of_nat (3 * 16 + unat (d ! 6) mod 16)
              else if i = 8 then of_nat (2 * 64 + unat (d ! 8) mod 64)
              else d ! i) [0..<length d]"

definition spec_hex_byte :: "byte \<Rightarrow> pystr" where
  "spec_hex_byte b = [hex_digit (unat b div 16), hex_digit (unat b mod 16)]"

definition spec_render :: "byte list \<Rightarrow> pystr" where
  "spec_render d =
     concat (map spec_hex_byte (take 4 d)) @ py ''-'' @
     concat (map spec_hex_byte (take 2 (drop 4 d))) @ py ''-'' @
     concat (map spec_hex_byte (take 2 (drop 6 d))) @ py ''-'' @
     concat (map spec_hex_byte (take 2 (drop 8 d))) @ py ''-'' @
     concat (map spec_hex_byte (drop 10 d))"

definition spec_identifier :: "pystr \<Rightarrow> pystr" where
  "spec_identifier username =
     spec_render (spec_stamp (md5 (spec_utf8 (py ''OfflinePlayer:'' @ username))))"

section \<open>Heap arguments\<close>

text \<open>The minimum heap of the JVM arguments, \<^verbatim>\<open>max(1, ram_gb // 2)\<close>.\<close>

definition min_heap_gb :: "int \<Rightarrow> int" where
  "min_heap_gb ram_gb = max 1 (ram_gb div 2)"

text \<open>An integer inside an f-string: its decimal digits, with a minus sign below zero.\<close>

definition dec_digit :: "nat \<Rightarrow> codepoint" where
  "dec_digit d = ord CHR ''0'' + d"

fun dec :: "nat \<Rightarrow> pystr" where
  "dec n = (if n < 10 then [dec_digit n] else dec (n div 10) @ [dec_digit (n mod 10)])"

declare dec.simps [simp del]

definition str_int :: "int \<Rightarrow> pystr" where
  "str_int i = (if i < 0 then py ''-'' @ dec (nat (- i)) else dec (nat i))"

record options =
  opt_username :: pystr
  opt_uuid :: pystr
  opt_token :: pystr
  jvmArguments :: "pystr list"

definition build_options :: "session \<Rightarrow> int \<Rightarrow> options" where
  "build_options session ram_gb =
     \<lparr>opt_username = session_name session,
      opt_uuid = session_id session,
      opt_token = session_token session,
      jvmArguments = [py ''-Xmx'' @ str_int ram_gb @ py ''G'',
                      py ''-Xms'' @ str_int (min_heap_gb ram_gb) @ py ''G'']\<rparr>"

section \<open>Preferences\<close>

text \<open>
  The configuration is the dictionary that \<open>json.load\<close> returned, updated in place.
  The preferences file is absent, holds a dumped dictionary, or holds something that
  \<open>json.load\<close> rejects. (A file whose JSON value is not an object makes start-up itself
  fail, before any launch.) \<open>_save_config\<close> swallows every exception of the write; what
  the file holds after a failed write is for the environment to say.
\<close>

datatype pyval =
    PNone | PBool bool | PInt int | PFloat pystr | PStr pystr
  | PList "pyval list" | PDict "(pystr \<times> pyval) list"

type_synonym config = "pystr \<rightharpoonup> pyval"

datatype file_state = NoFile | JsonFile config | Unreadable

datatype save_outcome = Saved | SaveFailed file_state

section \<open>The external launcher library\<close>

text \<open>
  \<open>minecraft_launcher_lib\<close>, \<open>subprocess.Popen\<close> and the file system are outside the
  program. The environment says what each call answers: a value, or the exception it
  raises. Installed versions are dictionaries that may lack the key \<open>"id"\<close>.
\<close>

datatype game_type = Vanilla | Forge | Fabric

record installed_version =
  id_key :: "pystr option"

record latest_versions =
  release :: pystr
  snapshot :: pystr

datatype ext_call =
    GetMinecraftDirectory
  | GetInstalledVersions pystr
  | GetLatestVersion
  | InstallMinecraftVersion pystr pystr
  | GetMinecraftCommand pystr pystr options
  | Popen "pystr list"

record env =
  library_present :: bool
  minecraft_directory :: pystr
  installed_versions :: "pystr \<Rightarrow> pyexc + installed_version list"
  latest_version :: "pyexc + latest_versions"
  install_result :: "pystr \<Rightarrow> pystr \<Rightarrow> pyexc option"
  command_result :: "pystr \<Rightarrow> pystr \<Rightarrow> options \<Rightarrow> pyexc + pystr list"
  popen_result :: "pystr list \<Rightarrow> pyexc option"
  save_outcome :: save_outcome

section \<open>The launcher\<close>

text \<open>
  The Tk variables, the configuration dictionary, the attributes that
  \<open>_login_with_ms\<close> sets, and the preferences file. \<open>login_type_var\<close> is a string variable:
  the radio buttons set it to \<open>"offline"\<close> or \<open>"microsoft"\<close>, but start-up copies whatever
  the preferences file holds into it. \<open>version_var\<close> belongs to a read-only combo box of
  three values.
\<close>

record profile =
  profile_name :: pystr
  profile_id :: pystr

record launcher =
  username_var :: pystr
  login_type_var :: pystr
  version_var :: game_type
  ram_var :: int
  config :: config
  ms_profile :: "profile option"
  ms_token :: "pystr option"
  pref_file :: file_state

datatype failure =
    InvalidUsername
  | NotAuthenticated
  | LaunchUnavailable
  | VersionResolutionError pyexc
  | InstallError pystr pyexc
  | LaunchError pyexc

datatype outcome = Done game_type | Failed failure | Uncaught pyexc

record result =
  outcome :: outcome
  final :: launcher
  calls :: "ext_call list"

definition load_config :: "launcher \<Rightarrow> launcher" where
  "load_config st =
     st\<lparr>config := (case pref_file st of JsonFile c \<Rightarrow> c | NoFile \<Rightarrow> Map.empty | Unreadable \<Rightarrow> Map.empty)\<rparr>"

definition save_config :: "env \<Rightarrow> launcher \<Rightarrow> launcher" where
  "save_config env st =
     (case save_outcome env of
        Saved \<Rightarrow> st\<lparr>pref_file := JsonFile (config st)\<rparr>
      | SaveFailed f \<Rightarrow> st\<lparr>pref_file := f\<rparr>)"

definition on_close :: "env \<Rightarrow> launcher \<Rightarrow> launcher" where
  "on_close env st = save_config env st"

text \<open>\<open>_login_with_ms\<close>; the argument is the string of the random UUID it draws.\<close>

definition login_with_ms :: "pystr \<Rightarrow> launcher \<Rightarrow> launcher" where
  "login_with_ms fresh_uuid st =
     st\<lparr>ms_profile := Some \<lparr>profile_name = py ''Player'', profile_id = fresh_uuid\<rparr>,
        ms_token := Some (py ''placeholder_token'')\<rparr>"

text \<open>The three assignments to the configuration dictionary under "Persist config".\<close>

definition persist :: "launcher \<Rightarrow> pystr \<Rightarrow> pystr \<Rightarrow> int \<Rightarrow> launcher" where
  "persist st login_type username ram_gb =
     (let c = (if login_type = py ''offline''
               then (config st)(py ''offline_username'' \<mapsto> PStr username)
               else config st);
          c = c(py ''login_type'' \<mapsto> PStr login_type);
          c = c(py ''ram'' \<mapsto> PInt ram_gb)
      in st\<lparr>config := c\<rparr>)"

subsection \<open>Version selection\<close>

text \<open>
  \<^verbatim>\<open>next((v["id"] for v in installed if name in v.get("id", "").lower()), None)\<close>:
  the \<open>"id"\<close> of the first entry that passes the test, or \<open>None\<close>.
\<close>

definition id_contains :: "pystr \<Rightarrow> installed_version \<Rightarrow> bool" where
  "id_contains name v = str_in name (lower (case id_key v of None \<Rightarrow> [] | Some i \<Rightarrow> i))"

fun first_match :: "pystr \<Rightarrow> installed_version list \<Rightarrow> pystr option" where
  "first_match name [] = None"
| "first_match name (v # vs) = (if id_contains name v then id_key v else first_match name vs)"

text \<open>
  The \<open>if\<close>/\<open>elif\<close> chain on the game type, with the calls it makes, and then the
  test \<open>not version_id\<close>, which holds for \<open>None\<close> and for the empty string.
\<close>

definition select_version ::
    "env \<Rightarrow> game_type \<Rightarrow> installed_version list \<Rightarrow> (pyexc + pystr option) \<times> ext_call list" where
  "select_version env game_type installed =
     (case game_type of
        Vanilla \<Rightarrow>
          (case latest_version env of
             Inl exc \<Rightarrow> (Inl exc, [GetLatestVersion])
           | Inr lv \<Rightarrow> (Inr (Some (release lv)), [GetLatestVersion]))
      | Forge \<Rightarrow> (Inr (first_match (py ''forge'') installed), [])
      | Fabric \<Rightarrow> (Inr (first_match (py ''fabric'') installed), []))"

definition falsy :: "pystr option \<Rightarrow> bool" where
  "falsy version_id \<longleftrightarrow> version_id = None \<or> version_id = Some []"

definition pick_version ::
    "env \<Rightarrow> pystr \<Rightarrow> game_type \<Rightarrow> (pyexc + pystr \<times> game_type) \<times> ext_call list" where
  "pick_version env mc_dir game_type =
     (case installed_versions env mc_dir of
        Inl exc \<Rightarrow> (Inl exc, [GetInstalledVersions mc_dir])
      | Inr installed \<Rightarrow>
          (case select_version env game_type installed of
             (Inl exc, tr) \<Rightarrow> (Inl exc, GetInstalledVersions mc_dir # tr)
           | (Inr version_id, tr) \<Rightarrow>
               (if falsy version_id then
                  (case latest_version env of
                     Inl exc \<Rightarrow> (Inl exc, GetInstalledVersions mc_dir # tr @ [GetLatestVersion])
                   | Inr lv \<Rightarrow>
                       (Inr (release lv, Vanilla),
                        GetInstalledVersions mc_dir # tr @ [GetLatestVersion]))
                else
                  (Inr (case version_id of Some v \<Rightarrow> v | None \<Rightarrow> [], game_type),
                   GetInstalledVersions mc_dir # tr))))"

subsection \<open>Session and command\<close>

definition build_session :: "launcher \<Rightarrow> pystr \<Rightarrow> pystr \<Rightarrow> pyexc + session" where
  "build_session st login_type username =
     (if login_type = py ''offline'' then offline_session username
      else
        (case ms_profile st of
           None \<Rightarrow> Inl AttributeError
         | Some p \<Rightarrow>
             (case ms_token st of
                None \<Rightarrow> Inl AttributeError
              | Some t \<Rightarrow>
                  Inr \<lparr>session_name = profile_name p, session_id = profile_id p,
                       session_token = t\<rparr>)))"

definition start_game ::
    "env \<Rightarrow> launcher \<Rightarrow> ext_call list \<Rightarrow> pystr \<Rightarrow> pystr \<Rightarrow> game_type \<Rightarrow> options \<Rightarrow> result" where
  "start_game env st tr version_id mc_dir game_type opts =
     (case command_result env version_id mc_dir opts of
        Inl exc \<Rightarrow>
          \<lparr>outcome = Failed (LaunchError exc), final = st,
           calls = tr @ [GetMinecraftCommand version_id mc_dir opts]\<rparr>
      | Inr cmd \<Rightarrow>
          (case popen_result env cmd of
             Some exc \<Rightarrow>
               \<lparr>outcome = Failed (LaunchError exc), final = st,
                calls = tr @ [GetMinecraftCommand version_id mc_dir opts, Popen cmd]\<rparr>
           | None \<Rightarrow>
               \<lparr>outcome = Done game_type, final = st,
                calls = tr @ [GetMinecraftCommand version_id mc_dir opts, Popen cmd]\<rparr>))"

subsection \<open>The launch handler\<close>

text \<open>
  \<open>_launch\<close>, section by section: read the variables, validate, persist, import the
  library, pick the version, install it, build the session, build and run the command.
  The session block stands outside every \<open>try\<close>, so an exception there leaves the
  handler uncaught.
\<close>

definition launch :: "env \<Rightarrow> launcher \<Rightarrow> result" where
  "launch env st =
     (let login_type = login_type_var st;
          username = strip (username_var st);
          game_type = version_var st;
          ram_gb = ram_var st
      in
      if login_type = py ''offline'' \<and> \<not> validate_username username then
        \<lparr>outcome = Failed InvalidUsername, final = st, calls = []\<rparr>
      else if login_type = py ''microsoft'' \<and> ms_profile st = None then
        \<lparr>outcome = Failed NotAuthenticated, final = st, calls = []\<rparr>
      else
        (let st = save_config env (persist st login_type username ram_gb) in
         if \<not> library_present env then
           \<lparr>outcome = Failed LaunchUnavailable, final = st, calls = []\<rparr>
         else
           (let mc_dir = minecraft_directory env in
            case pick_version env mc_dir game_type of
              (Inl exc, tr) \<Rightarrow>
                \<lparr>outcome = Failed (VersionResolutionError exc), final = st,
                 calls = GetMinecraftDirectory # tr\<rparr>
            | (Inr (version_id, game_type), tr) \<Rightarrow>
                (let tr = GetMinecraftDirectory # tr @ [InstallMinecraftVersion version_id mc_dir] in
                 case install_result env version_id mc_dir of
                   Some exc \<Rightarrow>
                     \<lparr>outcome = Failed (InstallError version_id exc), final = st, calls = tr\<rparr>
                 | None \<Rightarrow>
                     (case build_session st login_type username of
                        Inl exc \<Rightarrow> \<lparr>outcome = Uncaught exc, final = st, calls = tr\<rparr>
                      | Inr session \<Rightarrow>
                          start_game env st tr version_id mc_dir game_type
                            (build_options session ram_gb))))))"

text \<open>
  The specification's wording of the loader test: the loader's name occurs somewhere in
  the lowercased identifier.
\<close>

definition spec_contains_ci :: "pystr \<Rightarrow> pystr \<Rightarrow> bool" where
  "spec_contains_ci name ident \<longleftrightarrow> (\<exists>before after. lower ident = before @ name @ after)"

definition spec_matches :: "pystr \<Rightarrow> installed_version \<Rightarrow> bool" where
  "spec_matches name v \<longleftrightarrow> (\<exists>ident. id_key v = Some ident \<and> spec_contains_ci name ident)"

section \<open>A worked request\<close>

text \<open>
  The offline request for \<open>"Steve"\<close>, default edition, 4 GB, on a fresh launcher, and
  an environment in which the library is present and every call succeeds.
\<close>

definition steve_launcher :: launcher where
  "steve_launcher =
     \<lparr>username_var = py ''Steve'', login_type_var = py ''offline'', version_var = Vanilla,
      ram_var = 4, config = Map.empty, ms_profile = None, ms_token = None, pref_file = NoFile\<rparr>"

definition working_env :: env where
  "working_env =
     \<lparr>library_present = True,
      minecraft_directory = py ''.minecraft'',
      installed_versions =
        (\<lambda>d. Inr [\<lparr>id_key = Some (py ''1.20.4'')\<rparr>, \<lparr>id_key = None\<rparr>,
                   \<lparr>id_key = Some (py ''1.20.1-Forge-47.2.0'')\<rparr>,
                   \<lparr>id_key = Some (py ''1.20.1-forge-47.1.0'')\<rparr>]),
      latest_version = Inr \<lparr>release = py ''1.21'', snapshot = py ''24w14a''\<rparr>,
      install_result = (\<lambda>v d. None),
      command_result = (\<lambda>v d opts. Inr (py ''java'' # jvmArguments opts)),
      popen_result = (\<lambda>cmd. None),
      save_outcome = Saved\<rparr>"

definition steve_options :: options where
  "steve_options =
     \<lparr>opt_username = py ''Steve'', opt_uuid = py ''5627dd98-e6be-3c21-b8a8-e92344183641'',
      opt_token = [], jvmArguments = [py ''-Xmx4G'', py ''-Xms2G'']\<rparr>"

text \<open>The same request typed with blanks around the name, and one with a name too short.\<close>

definition padded_launcher :: launcher where
  "padded_launcher = steve_launcher\<lparr>username_var := py ''  Steve  ''\<rparr>"

definition short_launcher :: launcher where
  "short_launcher = steve_launcher\<lparr>username_var := py ''ab''\<rparr>"

text \<open>A launcher whose configuration came with a key of another program version.\<close>

definition themed_launcher :: launcher where
  "themed_launcher =
     steve_launcher\<lparr>config := [py ''theme'' \<mapsto> PStr (py ''dark''), py ''ram'' \<mapsto> PInt 2],
       pref_file := JsonFile [py ''theme'' \<mapsto> PStr (py ''dark''), py ''ram'' \<mapsto> PInt 2]\<rparr>"

text \<open>An environment in which the library cannot list the installed versions.\<close>

definition failing_env :: env where
  "failing_env = working_env\<lparr>installed_versions := (\<lambda>d. Inl (LibraryError (py ''unreachable'')))\<rparr>"

text \<open>The sixteen message words of the padded block of \<open>"OfflinePlayer:Steve"\<close>.\<close>

definition steve_words :: "u32 list" where
  "steve_words = [0x6c66664f, 0x50656e69, 0x6579616c, 0x74533a72, 0x80657665, 0x0, 0x0, 0x0, 0x0, 0x0, 0x0, 0x0, 0x0, 0x0, 0x98, 0x0]"

section \<open>The validator\<close>

lemma range_upt: "a \<le> c \<and> c \<le> b \<longleftrightarrow> c \<in> set [a..<Suc b]"
  by auto

lemma upt_capitals: "[65..<Suc 90] = py ''ABCDEFGHIJKLMNOPQRSTUVWXYZ''"
  unfolding py_def ord_def by code_simp

lemma upt_smalls: "[97..<Suc 122] = py ''abcdefghijklmnopqrstuvwxyz''"
  unfolding py_def ord_def by code_simp

lemma upt_digits: "[48..<Suc 57] = py ''0123456789''"
  unfolding py_def ord_def by code_simp

lemma char_class_iff: "char_class c \<longleftrightarrow> c \<in> ascii_word_chars"
proof -
  have "char_class c \<longleftrightarrow> c \<in> set ([65..<Suc 90] @ [97..<Suc 122] @ [48..<Suc 57] @ [95])"
    unfolding char_class_def ord_def by (simp only: range_upt set_append of_char_Char) auto
  also have "[65..<Suc 90] @ [97..<Suc 122] @ [48..<Suc 57] @ [95]
      = py ''ABCDEFGHIJKLMNOPQRSTUVWXYZabcdefghijklmnopqrstuvwxyz0123456789_''"
    unfolding upt_capitals upt_smalls upt_digits by (simp add: py_def ord_def)
  finally show ?thesis by (simp add: ascii_word_chars_def)
qed

lemma fullmatch_class_plus_iff:
  "fullmatch_class_plus s \<longleftrightarrow> s \<noteq> [] \<and> list_all char_class s"
  by (induction s rule: fullmatch_class_plus.induct) auto

text \<open>
  C5. The validator accepts a name exactly when its length is between 3 and 16 and every
  character is an ASCII letter, a digit or the underscore. It is a function of the name
  alone.
\<close>

theorem validate_username_iff:
  "validate_username name \<longleftrightarrow>
     3 \<le> length name \<and> length name \<le> 16 \<and> (\<forall>c\<in>set name. c \<in> ascii_word_chars)"
  by (auto simp: validate_username_def fullmatch_class_plus_iff list_all_iff char_class_iff)

theorem validate_username_iff_witness:
  "3 \<le> length (py ''Steve'') \<and> length (py ''Steve'') \<le> 16 \<and>
   set (py ''Steve'') \<subseteq> ascii_word_chars \<and> validate_username (py ''Steve'')"
  using validate_username_iff [of "py ''Steve''"]
  by (simp add: py_def ord_def ascii_word_chars_def)

section \<open>The two renderings of a UUID\<close>

lemma hex_fixed_zero: "hex_fixed k 0 = replicate k (ord CHR ''0'')"
  by (induction k) (simp_all add: hex_digit_def replicate_append_same)

lemma length_hex_fixed: "length (hex_fixed k n) = k"
  by (induction k arbitrary: n) simp_all

lemma pad_hex_fixed:
  "n < 16 ^ Suc k \<Longrightarrow> replicate (Suc k - length (hex n)) (ord CHR ''0'') @ hex n = hex_fixed (Suc k) n"
proof (induction k arbitrary: n)
  case 0
  then show ?case by (simp add: hex.simps [of n])
next
  case (Suc k)
  show ?case
  proof (cases "n < 16")
    case True
    then show ?thesis by (simp add: hex.simps [of n] hex_fixed_zero)
  next
    case False
    from Suc.prems have "n div 16 < 16 ^ Suc k"
      by (simp add: less_mult_imp_div_less)
    from Suc.IH [OF this] False show ?thesis
      by (simp add: hex.simps [of n])
  qed
qed

lemma int_from_bytes_snoc: "int_from_bytes (bs @ [b]) = 256 * int_from_bytes bs + unat b"
  by (simp add: int_from_bytes_def)

lemma unat_byte_less: "unat (b :: byte) < 256"
  using unsigned_less [of b, where ?'a = nat] by simp

lemma int_from_bytes_less: "int_from_bytes bs < 256 ^ length bs"
proof (induction bs rule: rev_induct)
  case Nil
  then show ?case by (simp add: int_from_bytes_def)
next
  case (snoc b bs)
  have "256 * int_from_bytes bs + unat b < 256 * (int_from_bytes bs + 1)"
    using unat_byte_less [of b] by simp
  also have "\<dots> \<le> 256 * 256 ^ length bs"
    using snoc.IH by (simp only: mult_le_cancel1) simp
  finally show ?case by (simp add: int_from_bytes_snoc)
qed

lemma hex_fixed_bytes:
  "hex_fixed (2 * length bs) (int_from_bytes bs) = concat (map spec_hex_byte bs)"
proof (induction bs rule: rev_induct)
  case Nil
  then show ?case by simp
next
  case (snoc b bs)
  let ?m = "int_from_bytes bs" and ?v = "unat b"
  have v: "?v < 256" by (rule unat_byte_less)
  have e: "256 * ?m + ?v = ?v + 16 * (16 * ?m)" by simp
  have d1: "(256 * ?m + ?v) mod 16 = ?v mod 16"
    unfolding e by (rule mod_mult_self2)
  have s: "?v div 16 < 16" using v by simp
  have q: "(256 * ?m + ?v) div 16 = 16 * ?m + ?v div 16"
    unfolding e by (rule div_mult_self2) simp
  have d2: "(256 * ?m + ?v) div 16 mod 16 = ?v div 16"
    unfolding q using s by simp
  have d3: "(256 * ?m + ?v) div 16 div 16 = ?m"
    unfolding q using s by simp
  show ?case
    using snoc.IH by (simp add: int_from_bytes_snoc d1 d2 d3 spec_hex_byte_def)
qed

lemma format_032x_bytes:
  assumes "length d = 16"
  shows "format_032x (int_from_bytes d) = concat (map spec_hex_byte d)"
proof -
  have "int_from_bytes d < 256 ^ 16"
    using int_from_bytes_less [of d] assms by simp
  also have "(256 :: nat) ^ 16 = 16 ^ Suc 31" by simp
  finally have "format_032x (int_from_bytes d) = hex_fixed (Suc 31) (int_from_bytes d)"
    unfolding format_032x_def using pad_hex_fixed [of "int_from_bytes d" 31] by simp
  also have "Suc 31 = 2 * length d" using assms by simp
  finally show ?thesis by (simp only: hex_fixed_bytes)
qed

lemma take_concat_pairs:
  "(\<And>x. length (f x) = 2) \<Longrightarrow> take (2 * n) (concat (map f xs)) = concat (map f (take n xs))"
proof (induction xs arbitrary: n)
  case Nil
  then show ?case by simp
next
  case (Cons x xs)
  then show ?case by (cases n) simp_all
qed

lemma drop_concat_pairs:
  "(\<And>x. length (f x) = 2) \<Longrightarrow> drop (2 * n) (concat (map f xs)) = concat (map f (drop n xs))"
proof (induction xs arbitrary: n)
  case Nil
  then show ?case by simp
next
  case (Cons x xs)
  then show ?case by (cases n) simp_all
qed

lemma uuid_str_bytes:
  assumes "length d = 16"
  shows "uuid_str (int_from_bytes d) = spec_render d"
proof -
  let ?h = "concat (map spec_hex_byte d)"
  have len: "\<And>x. length (spec_hex_byte x) = 2" by (simp add: spec_hex_byte_def)
  have t: "\<And>n. take (2 * n) ?h = concat (map spec_hex_byte (take n d))"
    by (rule take_concat_pairs) (rule len)
  have dr: "\<And>n. drop (2 * n) ?h = concat (map spec_hex_byte (drop n d))"
    by (rule drop_concat_pairs) (rule len)
  have t2: "\<And>n m. take (2 * n) (drop (2 * m) ?h) = concat (map spec_hex_byte (take n (drop m d)))"
    unfolding dr by (rule take_concat_pairs) (rule len)
  have "take 8 ?h = concat (map spec_hex_byte (take 4 d))" using t [of 4] by simp
  moreover have "take 4 (drop 8 ?h) = concat (map spec_hex_byte (take 2 (drop 4 d)))"
    using t2 [of 2 4] by simp
  moreover have "take 4 (drop 12 ?h) = concat (map spec_hex_byte (take 2 (drop 6 d)))"
    using t2 [of 2 6] by simp
  moreover have "take 4 (drop 16 ?h) = concat (map spec_hex_byte (take 2 (drop 8 d)))"
    using t2 [of 2 8] by simp
  moreover have "drop 20 ?h = concat (map spec_hex_byte (drop 10 d))"
    using dr [of 10] by simp
  ultimately show ?thesis
    unfolding uuid_str_def spec_render_def Let_def format_032x_bytes [OF assms] by simp
qed

section \<open>The stamped digest\<close>

lemma or_high_bits:
  "take_bit k (n::nat) OR push_bit k h = push_bit k h + take_bit k n"
proof -
  have "take_bit k n + push_bit k h = take_bit k n OR push_bit k h"
    by (rule disjunctive_add) (auto simp: bit_take_bit_iff bit_push_bit_iff)
  then show ?thesis by simp
qed

lemma unat_stamp6: "unat (((b::byte) AND 0x0F) OR 0x30) = 48 + unat b mod 16"
proof -
  have m: "(15::nat) = mask 4" by (simp add: mask_eq_exp_minus_1)
  have p: "(48::nat) = push_bit 4 3" by (simp add: push_bit_eq_mult)
  have "unat ((b AND 0x0F) OR 0x30) = (unat b AND 15) OR 48"
    by (simp add: unsigned_or_eq unsigned_and_eq)
  also have "\<dots> = take_bit 4 (unat b) OR push_bit 4 3"
    unfolding m p by (simp only: take_bit_eq_mask)
  also have "\<dots> = 48 + unat b mod 16"
    unfolding or_high_bits by (simp add: take_bit_eq_mod push_bit_eq_mult)
  finally show ?thesis .
qed

lemma unat_stamp8: "unat (((b::byte) AND 0x3F) OR 0x80) = 128 + unat b mod 64"
proof -
  have m: "(63::nat) = mask 6" by (simp add: mask_eq_exp_minus_1)
  have p: "(128::nat) = push_bit 6 2" by (simp add: push_bit_eq_mult)
  have "unat ((b AND 0x3F) OR 0x80) = (unat b AND 63) OR 128"
    by (simp add: unsigned_or_eq unsigned_and_eq)
  also have "\<dots> = take_bit 6 (unat b) OR push_bit 6 2"
    unfolding m p by (simp only: take_bit_eq_mask)
  also have "\<dots> = 128 + unat b mod 64"
    unfolding or_high_bits by (simp add: take_bit_eq_mod push_bit_eq_mult)
  finally show ?thesis .
qed

lemma stamp6: "((b::byte) AND 0x0F) OR 0x30 = of_nat (3 * 16 + unat b mod 16)"
proof -
  have "((b AND 0x0F) OR 0x30) = of_nat (unat ((b AND 0x0F) OR 0x30))" by simp
  then show ?thesis by (simp only: unat_stamp6) simp
qed

lemma stamp8: "((b::byte) AND 0x3F) OR 0x80 = of_nat (2 * 64 + unat b mod 64)"
proof -
  have "((b AND 0x3F) OR 0x80) = of_nat (unat ((b AND 0x3F) OR 0x80))" by simp
  then show ?thesis by (simp only: unat_stamp8) simp
qed

lemma length_md5: "length (md5 bs) = 16"
  by (simp add: md5_def Let_def le_bytes32_def split: prod.splits)

lemma stamp_spec:
  assumes "length d = 16"
  shows "(d[6 := (d ! 6 AND 0x0F) OR 0x30])[8 := (d ! 8 AND 0x3F) OR 0x80] = spec_stamp d"
  using assms
  by (intro nth_equalityI) (auto simp: spec_stamp_def nth_list_update stamp6 stamp8)

lemma utf8_ascii: "c < 128 \<Longrightarrow> utf8_cp c = Inr [of_nat c]"
  by (simp add: utf8_cp_def)

lemma encode_spec_utf8: "encode s = Inr bs \<Longrightarrow> spec_utf8 s = bs"
  by (induction s arbitrary: bs) (auto simp: spec_utf8_def split: sum.splits)

lemma encode_ascii: "list_all (\<lambda>c. c < 128) s \<Longrightarrow> encode s = Inr (map of_nat s)"
  by (induction s) (simp_all add: utf8_ascii)

lemma char_class_ascii: "char_class c \<Longrightarrow> c < 128"
  by (auto simp: char_class_def ord_def)

lemma valid_ascii: "validate_username u \<Longrightarrow> list_all (\<lambda>c. c < 128) u"
  by (auto simp: validate_username_def fullmatch_class_plus_iff list_all_iff dest: char_class_ascii)

lemma prefix_ascii: "list_all (\<lambda>c. c < 128) (py ''OfflinePlayer:'')"
  by (simp add: py_def ord_def)

lemma offline_digest_valid:
  assumes "validate_username u"
  shows "offline_digest u = Inr (spec_stamp (md5 (spec_utf8 (py ''OfflinePlayer:'' @ u))))"
proof -
  let ?s = "py ''OfflinePlayer:'' @ u"
  have "list_all (\<lambda>c. c < 128) ?s"
    using valid_ascii [OF assms] prefix_ascii by simp
  then have e: "encode ?s = Inr (map of_nat ?s)" by (rule encode_ascii)
  then have s: "spec_utf8 ?s = map of_nat ?s" by (rule encode_spec_utf8)
  show ?thesis
    unfolding offline_digest_def e s Let_def
    by (simp add: stamp_spec length_md5)
qed

section \<open>The digest of the worked request\<close>

lemma zero_padding: "replicate (numeral k) (0 :: byte) = 0 # replicate (pred_numeral k) 0"
  unfolding numeral_eq_Suc by simp

lemma upt_blocks: "[0..<64] = [0..<8] @ [8..<16] @ [16..<24] @ [24..<32] @ [32..<40] @ [40..<48] @ [48..<56] @ [56..<64]"
  by code_simp

lemma upt_sixteen: "[0..<16] = [0..<8] @ [8..<16]"
  by code_simp

lemma upt_eights:
  "[0..<8] = [0, 1, 2, 3, 4, 5, 6, 7]"
  "[8..<16] = [8, 9, 10, 11, 12, 13, 14, 15]"
  "[16..<24] = [16, 17, 18, 19, 20, 21, 22, 23]"
  "[24..<32] = [24, 25, 26, 27, 28, 29, 30, 31]"
  "[32..<40] = [32, 33, 34, 35, 36, 37, 38, 39]"
  "[40..<48] = [40, 41, 42, 43, 44, 45, 46, 47]"
  "[48..<56] = [48, 49, 50, 51, 52, 53, 54, 55]"
  "[56..<64] = [56, 57, 58, 59, 60, 61, 62, 63]"
  by code_simp+

lemma steve_bytes: "spec_utf8 (py ''OfflinePlayer:'' @ py ''Steve'') = [79, 102, 102, 108, 105, 110, 101, 80, 108, 97, 121, 101, 114, 58, 83, 116, 101, 118, 101]"
  by (simp add: spec_utf8_def py_def ord_def utf8_cp_def)

lemma steve_pad: "md5_pad [79, 102, 102, 108, 105, 110, 101, 80, 108, 97, 121, 101, 114, 58, 83, 116, 101, 118, 101] = [79, 102, 102, 108, 105, 110, 101, 80, 108, 97, 121, 101, 114, 58, 83, 116, 101, 118, 101, 128, 0, 0, 0, 0, 0, 0, 0, 0, 0, 0, 0, 0, 0, 0, 0, 0, 0, 0, 0, 0, 0, 0, 0, 0, 0, 0, 0, 0, 0, 0, 0, 0, 0, 0, 0, 0, 152, 0, 0, 0, 0, 0, 0, 0]"
  by (simp add: md5_pad_def le_bytes64_def zero_padding)

lemma steve_le_words: "le_words [79, 102, 102, 108, 105, 110, 101, 80, 108, 97, 121, 101, 114, 58, 83, 116, 101, 118, 101, 128, 0, 0, 0, 0, 0, 0, 0, 0, 0, 0, 0, 0, 0, 0, 0, 0, 0, 0, 0, 0, 0, 0, 0, 0, 0, 0, 0, 0, 0, 0, 0, 0, 0, 0, 0, 0, 152, 0, 0, 0, 0, 0, 0, 0] = steve_words"
  by (simp add: le32_def steve_words_def)

lemma steve_rounds_0:
  "foldl (md5_step steve_words) (0x67452301, 0xefcdab89, 0x98badcfe, 0x10325476) [0..<8] = (0x3b34fa7a, 0xa49a0484, 0x37fffd68, 0x54c82671)"
  unfolding upt_eights
  by (simp add: steve_words_def md5_step_def md5_f_def md5_g_def md5_K_def md5_s_def rotl32_def)

lemma steve_rounds_1:
  "foldl (md5_step steve_words) (0x3b34fa7a, 0xa49a0484, 0x37fffd68, 0x54c82671) [8..<16] = (0x383aaf28, 0xe4f07b60, 0x81483c2e, 0x58b9d3e9)"
  unfolding upt_eights
  by (simp add: steve_words_def md5_step_def md5_f_def md5_g_def md5_K_def md5_s_def rotl32_def)

lemma steve_rounds_2:
  "foldl (md5_step steve_words) (0x383aaf28, 0xe4f07b60, 0x81483c2e, 0x58b9d3e9) [16..<24] = (0x43348bd3, 0x578851cb, 0x02ab30cd, 0x8050ae27)"
  unfolding upt_eights
  by (simp add: steve_words_def md5_step_def md5_f_def md5_g_def md5_K_def md5_s_def rotl32_def)

lemma steve_rounds_3:
  "foldl (md5_step steve_words) (0x43348bd3, 0x578851cb, 0x02ab30cd, 0x8050ae27) [24..<32] = (0xe8768fc7, 0xc0c708ee, 0x4428b4d2, 0x72d621a2)"
  unfolding upt_eights
  by (simp add: steve_words_def md5_step_def md5_f_def md5_g_def md5_K_def md5_s_def rotl32_def)

lemma steve_rounds_4:
  "foldl (md5_step steve_words) (0xe8768fc7, 0xc0c708ee, 0x4428b4d2, 0x72d621a2) [32..<40] = (0x16d27cb1, 0x02dd94c1, 0x70d36785, 0x6a63e36a)"
  unfolding upt_eights
  by (simp add: steve_words_def md5_step_def md5_f_def md5_g_def md5_K_def md5_s_def rotl32_def)

lemma steve_rounds_5:
  "foldl (md5_step steve_words) (0x16d27cb1, 0x02dd94c1, 0x70d36785, 0x6a63e36a) [40..<48] = (0x38a3ef24, 0x329cb585, 0x02e4382f, 0x201087e2)"
  unfolding upt_eights
  by (simp add: steve_words_def md5_step_def md5_f_def md5_g_def md5_K_def md5_s_def rotl32_def)

lemma steve_rounds_6:
  "foldl (md5_step steve_words) (0x38a3ef24, 0x329cb585, 0x02e4382f, 0x201087e2) [48..<56] = (0x55c5a186, 0xe752fc18, 0x2841aae0, 0x5d067041)"
  unfolding upt_eights
  by (simp add: steve_words_def md5_step_def md5_f_def md5_g_def md5_K_def md5_s_def rotl32_def)

lemma steve_rounds_7:
  "foldl (md5_step steve_words) (0x55c5a186, 0xe752fc18, 0x2841aae0, 0x5d067041) [56..<64] = (0x31980455, 0x31ef135d, 0x8b2ecbfa, 0x3103c3ce)"
  unfolding upt_eights
  by (simp add: steve_words_def md5_step_def md5_f_def md5_g_def md5_K_def md5_s_def rotl32_def)

lemma steve_rounds:
  "foldl (md5_step steve_words) (0x67452301, 0xefcdab89, 0x98badcfe, 0x10325476) [0..<64] = (0x31980455, 0x31ef135d, 0x8b2ecbfa, 0x3103c3ce)"
  unfolding upt_blocks
  by (simp only: foldl_append steve_rounds_0 steve_rounds_1 steve_rounds_2 steve_rounds_3 steve_rounds_4 steve_rounds_5 steve_rounds_6 steve_rounds_7)

lemma steve_block: "md5_block (0x67452301, 0xefcdab89, 0x98badcfe, 0x10325476) [79, 102, 102, 108, 105, 110, 101, 80, 108, 97, 121, 101, 114, 58, 83, 116, 101, 118, 101, 128, 0, 0, 0, 0, 0, 0, 0, 0, 0, 0, 0, 0, 0, 0, 0, 0, 0, 0, 0, 0, 0, 0, 0, 0, 0, 0, 0, 0, 0, 0, 0, 0, 0, 0, 0, 0, 152, 0, 0, 0, 0, 0, 0, 0] = (0x98dd2756, 0x21bcbee6, 0x23e9a8f8, 0x41361844)"
  unfolding md5_block_def steve_le_words steve_rounds by simp

lemma steve_md5: "md5 [79, 102, 102, 108, 105, 110, 101, 80, 108, 97, 121, 101, 114, 58, 83, 116, 101, 118, 101] = [86, 39, 221, 152, 230, 190, 188, 33, 248, 168, 233, 35, 68, 24, 54, 65]"
  unfolding md5_def steve_pad Let_def
  by (simp add: steve_block le_bytes32_def)

lemma steve_stamp: "spec_stamp [86, 39, 221, 152, 230, 190, 188, 33, 248, 168, 233, 35, 68, 24, 54, 65] = [86, 39, 221, 152, 230, 190, 60, 33, 184, 168, 233, 35, 68, 24, 54, 65]"
  unfolding spec_stamp_def by (simp add: upt_sixteen upt_eights)

lemma steve_render: "spec_render [86, 39, 221, 152, 230, 190, 60, 33, 184, 168, 233, 35, 68, 24, 54, 65] = py ''5627dd98-e6be-3c21-b8a8-e92344183641''"
  by (simp add: spec_render_def spec_hex_byte_def hex_digit_def py_def ord_def)

lemma steve_identifier: "spec_identifier (py ''Steve'') = py ''5627dd98-e6be-3c21-b8a8-e92344183641''"
  unfolding spec_identifier_def steve_bytes steve_md5 steve_stamp steve_render ..

section \<open>Sessions and the calls of a launch\<close>

lemma length_spec_stamp: "length (spec_stamp d) = length d"
  by (simp add: spec_stamp_def)

lemma offline_uuid_valid:
  assumes "validate_username u"
  shows "offline_uuid u = Inr (spec_identifier u)"
proof -
  let ?d = "spec_stamp (md5 (spec_utf8 (py ''OfflinePlayer:'' @ u)))"
  have "length ?d = 16" by (simp add: length_spec_stamp length_md5)
  then show ?thesis
    unfolding offline_uuid_def offline_digest_valid [OF assms] spec_identifier_def
    by (simp add: uuid_from_bytes_def uuid_str_bytes)
qed

lemma offline_session_valid:
  "validate_username u \<Longrightarrow>
   offline_session u = Inr \<lparr>session_name = u, session_id = spec_identifier u, session_token = []\<rparr>"
  by (simp add: offline_session_def offline_uuid_valid)

lemma steve_valid: "validate_username (py ''Steve'')"
  by (simp add: validate_username_def py_def ord_def char_class_def)

lemma steve_session:
  "offline_session (py ''Steve'') =
     Inr \<lparr>session_name = py ''Steve'', session_id = py ''5627dd98-e6be-3c21-b8a8-e92344183641'',
          session_token = []\<rparr>"
  by (simp add: offline_session_valid [OF steve_valid] steve_identifier)

lemma build_session_frame:
  "build_session (save_config env (persist st l u r)) l' u' = build_session st l' u'"
proof -
  let ?st = "save_config env (persist st l u r)"
  have "ms_profile ?st = ms_profile st" and "ms_token ?st = ms_token st"
    by (simp_all add: save_config_def persist_def Let_def split: save_outcome.splits)
  then show ?thesis by (simp add: build_session_def cong: option.case_cong)
qed

lemma select_version_calls:
  "select_version env g installed = (r, tr) \<Longrightarrow> set tr \<subseteq> {GetLatestVersion}"
  by (auto simp: select_version_def split: game_type.splits sum.splits)

lemma pick_version_calls:
  "pick_version env d g = (r, tr) \<Longrightarrow> set tr \<subseteq> {GetInstalledVersions d, GetLatestVersion}"
  by (auto simp: pick_version_def split: sum.splits prod.splits if_splits
           dest!: select_version_calls)

lemma start_game_calls:
  "GetMinecraftCommand v d opts \<in> set (calls (start_game env st tr v' d' g opts')) \<Longrightarrow>
   GetMinecraftCommand v d opts \<in> set tr \<or> opts = opts'"
  by (auto simp: start_game_def split: sum.splits option.splits)

lemma launch_command:
  assumes "GetMinecraftCommand v d opts \<in> set (calls (launch env st))"
  shows "(login_type_var st = py ''offline'' \<longrightarrow> validate_username (strip (username_var st))) \<and>
         (\<exists>session. build_session st (login_type_var st) (strip (username_var st)) = Inr session \<and>
                    opts = build_options session (ram_var st))"
  using assms
  by (auto simp: launch_def Let_def build_session_frame
           split: if_splits prod.splits sum.splits option.splits
           dest!: pick_version_calls start_game_calls)

section \<open>The worked launch\<close>

lemma py_eq_iff: "py a = py b \<longleftrightarrow> a = b"
  unfolding py_def ord_def by (simp add: inj_map_eq_map inj_of_char)

lemma strip_steve: "strip (py ''Steve'') = py ''Steve''"
  by (simp add: strip_def py_def ord_def isspace_def)

lemma str_int_4: "str_int 4 = py ''4''"
  by (simp add: str_int_def dec.simps [of 4] dec_digit_def py_def ord_def)

lemma str_int_2: "str_int 2 = py ''2''"
  by (simp add: str_int_def dec.simps [of 2] dec_digit_def py_def ord_def)

lemma steve_build_options:
  "build_options \<lparr>session_name = py ''Steve'', session_id = py ''5627dd98-e6be-3c21-b8a8-e92344183641'',
          session_token = []\<rparr> 4 = steve_options"
  by (simp add: build_options_def min_heap_gb_def str_int_4 str_int_2 steve_options_def)
     (simp add: py_def)

text \<open>The path on which nothing fails.\<close>

lemma launch_done:
  assumes "\<not> (login_type_var st = py ''offline'' \<and> \<not> validate_username (strip (username_var st)))"
    and "\<not> (login_type_var st = py ''microsoft'' \<and> ms_profile st = None)"
    and "library_present env"
    and "pick_version env (minecraft_directory env) (version_var st) = (Inr (version_id, g), tr)"
    and "install_result env version_id (minecraft_directory env) = None"
    and "build_session st (login_type_var st) (strip (username_var st)) = Inr session"
    and "command_result env version_id (minecraft_directory env) (build_options session (ram_var st)) = Inr cmd"
    and "popen_result env cmd = None"
  shows "launch env st =
     \<lparr>outcome = Done g,
      final = save_config env (persist st (login_type_var st) (strip (username_var st)) (ram_var st)),
      calls = GetMinecraftDirectory # tr @
        [InstallMinecraftVersion version_id (minecraft_directory env),
         GetMinecraftCommand version_id (minecraft_directory env) (build_options session (ram_var st)),
         Popen cmd]\<rparr>"
  using assms
  by (simp add: launch_def Let_def build_session_frame start_game_def)

lemma working_pick_vanilla:
  "pick_version working_env (py ''.minecraft'') Vanilla =
     (Inr (py ''1.21'', Vanilla), [GetInstalledVersions (py ''.minecraft''), GetLatestVersion])"
  by (simp add: pick_version_def select_version_def working_env_def falsy_def py_def)

lemma working_env_fields:
  "library_present working_env" "minecraft_directory working_env = py ''.minecraft''"
  "install_result working_env v d = None"
  "command_result working_env v d opts = Inr (py ''java'' # jvmArguments opts)"
  "popen_result working_env cmd = None"
  "save_outcome working_env = Saved"
  by (simp_all add: working_env_def)

lemma steve_launcher_fields:
  "login_type_var steve_launcher = py ''offline''" "username_var steve_launcher = py ''Steve''"
  "version_var steve_launcher = Vanilla" "ram_var steve_launcher = 4"
  "ms_profile steve_launcher = None" "pref_file steve_launcher = NoFile"
  by (simp_all add: steve_launcher_def)

lemma steve_launch:
  "launch working_env steve_launcher =
     \<lparr>outcome = Done Vanilla,
      final = save_config working_env (persist steve_launcher (py ''offline'') (py ''Steve'') 4),
      calls = [GetMinecraftDirectory, GetInstalledVersions (py ''.minecraft''), GetLatestVersion,
               InstallMinecraftVersion (py ''1.21'') (py ''.minecraft''),
               GetMinecraftCommand (py ''1.21'') (py ''.minecraft'') steve_options,
               Popen [py ''java'', py ''-Xmx4G'', py ''-Xms2G'']]\<rparr>"
proof -
  have s: "build_session steve_launcher (py ''offline'') (py ''Steve'') =
      Inr \<lparr>session_name = py ''Steve'', session_id = py ''5627dd98-e6be-3c21-b8a8-e92344183641'',
          session_token = []\<rparr>"
    by (simp add: build_session_def steve_session)
  have "launch working_env steve_launcher =
     \<lparr>outcome = Done Vanilla,
      final = save_config working_env (persist steve_launcher (login_type_var steve_launcher)
                (strip (username_var steve_launcher)) (ram_var steve_launcher)),
      calls = GetMinecraftDirectory # [GetInstalledVersions (py ''.minecraft''), GetLatestVersion] @
        [InstallMinecraftVersion (py ''1.21'') (minecraft_directory working_env),
         GetMinecraftCommand (py ''1.21'') (minecraft_directory working_env)
           (build_options \<lparr>session_name = py ''Steve'',
              session_id = py ''5627dd98-e6be-3c21-b8a8-e92344183641'', session_token = []\<rparr>
              (ram_var steve_launcher)),
         Popen (py ''java'' # jvmArguments steve_options)]\<rparr>"
    by (rule launch_done)
       (simp_all add: steve_launcher_fields working_env_fields strip_steve steve_valid
          working_pick_vanilla s steve_build_options py_eq_iff)
  then show ?thesis
    by (simp add: steve_launcher_fields working_env_fields strip_steve steve_build_options)
       (simp add: steve_options_def)
qed

section \<open>Heap bounds\<close>

text \<open>
  C10. For a memory request of at least 1 GB the minimum heap is at least 1 GB and at
  most the requested maximum.
\<close>

theorem min_heap_gb_bounds:
  "1 \<le> ram_gb \<Longrightarrow> 1 \<le> min_heap_gb ram_gb \<and> min_heap_gb ram_gb \<le> ram_gb"
  unfolding min_heap_gb_def by simp

theorem min_heap_gb_bounds_witness:
  "(1::int) \<le> 4 \<and> 1 \<le> min_heap_gb 4 \<and> min_heap_gb 4 \<le> 4"
  using min_heap_gb_bounds [of 4]
  by (simp add: min_heap_gb_def)

section \<open>Identifier, short circuit and heap arguments\<close>

text \<open>
  C1. For a username that the validator accepts, the offline session carries the identifier
  of the specification: the digest of the UTF-8 bytes of \<open>"OfflinePlayer:" + username\<close>,
  bytes 6 and 8 stamped, rendered as a hyphenated lowercase-hex UUID; and this is the
  identifier that an offline launch hands to the library.
\<close>

theorem offline_identifier_spec:
  "validate_username username \<Longrightarrow>
     build_session st (py ''offline'') username =
       Inr \<lparr>session_name = username, session_id = spec_identifier username, session_token = []\<rparr> \<and>
     (login_type_var st = py ''offline'' \<and> strip (username_var st) = username \<and>
      GetMinecraftCommand v d opts \<in> set (calls (launch env st)) \<longrightarrow>
        opt_uuid opts = spec_identifier username)"
proof (intro conjI impI)
  assume valid: "validate_username username"
  then show s: "build_session st (py ''offline'') username =
       Inr \<lparr>session_name = username, session_id = spec_identifier username, session_token = []\<rparr>"
    by (simp add: build_session_def offline_session_valid)
  assume a: "login_type_var st = py ''offline'' \<and> strip (username_var st) = username \<and>
      GetMinecraftCommand v d opts \<in> set (calls (launch env st))"
  then obtain session where
    "build_session st (login_type_var st) (strip (username_var st)) = Inr session"
    "opts = build_options session (ram_var st)"
    using launch_command by blast
  with a s show "opt_uuid opts = spec_identifier username"
    by (auto simp: build_options_def)
qed

theorem offline_identifier_spec_witness:
  "validate_username (py ''Steve'') \<and>
   login_type_var steve_launcher = py ''offline'' \<and>
   strip (username_var steve_launcher) = py ''Steve'' \<and>
   GetMinecraftCommand (py ''1.21'') (py ''.minecraft'') steve_options
     \<in> set (calls (launch working_env steve_launcher)) \<and>
   opt_uuid steve_options = spec_identifier (py ''Steve'') \<and>
   build_session steve_launcher (py ''offline'') (py ''Steve'') =
     Inr \<lparr>session_name = py ''Steve'', session_id = spec_identifier (py ''Steve''),
          session_token = []\<rparr>"
  using offline_identifier_spec [of "py ''Steve''" steve_launcher "py ''1.21''" "py ''.minecraft''"
      steve_options working_env]
  by (simp add: steve_valid steve_launcher_fields strip_steve steve_launch)

text \<open>
  C6. In offline mode an invalid username ends the attempt in \<open>Failed InvalidUsername\<close>
  with no call to the external library at all, and nothing else changed.
\<close>

theorem invalid_username_short_circuit:
  "login_type_var st = py ''offline'' \<Longrightarrow> \<not> validate_username (strip (username_var st)) \<Longrightarrow>
     outcome (launch env st) = Failed InvalidUsername \<and> calls (launch env st) = [] \<and>
     final (launch env st) = st"
  by (simp add: launch_def Let_def)

lemma short_invalid: "\<not> validate_username (strip (username_var short_launcher))"
  by (simp add: short_launcher_def steve_launcher_def strip_def py_def ord_def isspace_def
        validate_username_def)

theorem invalid_username_short_circuit_witness:
  "login_type_var short_launcher = py ''offline'' \<and>
   \<not> validate_username (strip (username_var short_launcher)) \<and>
   outcome (launch working_env short_launcher) = Failed InvalidUsername \<and>
   calls (launch working_env short_launcher) = [] \<and>
   final (launch working_env short_launcher) = short_launcher"
  using invalid_username_short_circuit [of short_launcher working_env] short_invalid
  by (simp add: short_launcher_def steve_launcher_def)

text \<open>
  C4. The JVM arguments of the launch options are \<open>-Xmx\<close> with the requested gigabytes and
  \<open>-Xms\<close> with half of them rounded down, but at least 1, whatever the request; every
  command that a launch builds carries them; and the offline request for \<open>"Steve"\<close> with
  4 GB builds the session of \<open>"Steve"\<close> with the fixed identifier and an empty token, and
  the options \<open>-Xmx4G\<close> and \<open>-Xms2G\<close>.
\<close>

theorem heap_arguments:
  "jvmArguments (build_options session ram_gb) =
     [py ''-Xmx'' @ str_int ram_gb @ py ''G'',
      py ''-Xms'' @ str_int (max 1 (ram_gb div 2)) @ py ''G''] \<and>
   (GetMinecraftCommand v d opts \<in> set (calls (launch env st)) \<longrightarrow>
      jvmArguments opts =
        [py ''-Xmx'' @ str_int (ram_var st) @ py ''G'',
         py ''-Xms'' @ str_int (max 1 (ram_var st div 2)) @ py ''G''] \<and>
      (login_type_var st = py ''offline'' \<and> username_var st = py ''Steve'' \<and> ram_var st = 4 \<longrightarrow>
         build_session st (login_type_var st) (strip (username_var st)) =
           Inr \<lparr>session_name = py ''Steve'',
                session_id = py ''5627dd98-e6be-3c21-b8a8-e92344183641'', session_token = []\<rparr> \<and>
         opts = \<lparr>opt_username = py ''Steve'',
                 opt_uuid = py ''5627dd98-e6be-3c21-b8a8-e92344183641'', opt_token = [],
                 jvmArguments = [py ''-Xmx4G'', py ''-Xms2G'']\<rparr>))"
proof (intro conjI impI)
  show "jvmArguments (build_options session ram_gb) =
     [py ''-Xmx'' @ str_int ram_gb @ py ''G'',
      py ''-Xms'' @ str_int (max 1 (ram_gb div 2)) @ py ''G'']"
    by (simp add: build_options_def min_heap_gb_def)
next
  assume c: "GetMinecraftCommand v d opts \<in> set (calls (launch env st))"
  then obtain s where s: "build_session st (login_type_var st) (strip (username_var st)) = Inr s"
    and o: "opts = build_options s (ram_var st)"
    using launch_command by blast
  from o show "jvmArguments opts =
        [py ''-Xmx'' @ str_int (ram_var st) @ py ''G'',
         py ''-Xms'' @ str_int (max 1 (ram_var st div 2)) @ py ''G'']"
    by (simp add: build_options_def min_heap_gb_def)
  assume r: "login_type_var st = py ''offline'' \<and> username_var st = py ''Steve'' \<and> ram_var st = 4"
  then show b: "build_session st (login_type_var st) (strip (username_var st)) =
           Inr \<lparr>session_name = py ''Steve'',
                session_id = py ''5627dd98-e6be-3c21-b8a8-e92344183641'', session_token = []\<rparr>"
    by (simp add: build_session_def strip_steve steve_session)
  from s o r b show "opts = \<lparr>opt_username = py ''Steve'',
                 opt_uuid = py ''5627dd98-e6be-3c21-b8a8-e92344183641'', opt_token = [],
                 jvmArguments = [py ''-Xmx4G'', py ''-Xms2G'']\<rparr>"
    using steve_build_options by (simp add: steve_options_def)
qed

theorem heap_arguments_witness:
  "GetMinecraftCommand (py ''1.21'') (py ''.minecraft'') steve_options
     \<in> set (calls (launch working_env steve_launcher)) \<and>
   login_type_var steve_launcher = py ''offline'' \<and> username_var steve_launcher = py ''Steve'' \<and>
   ram_var steve_launcher = 4 \<and> version_var steve_launcher = Vanilla \<and>
   outcome (launch working_env steve_launcher) = Done Vanilla \<and>
   steve_options = \<lparr>opt_username = py ''Steve'',
                 opt_uuid = py ''5627dd98-e6be-3c21-b8a8-e92344183641'', opt_token = [],
                 jvmArguments = [py ''-Xmx4G'', py ''-Xms2G'']\<rparr>"
  using heap_arguments [of _ _ "py ''1.21''" "py ''.minecraft''" steve_options working_env
      steve_launcher]
  by (simp add: steve_launcher_fields steve_launch steve_options_def)

section \<open>Determinism of the identifier\<close>

lemma high_nibble_stamp6: "drop_bit 4 (((b::byte) AND 0x0F) OR 0x30) = 3"
proof -
  have "unat (drop_bit 4 ((b AND 0x0F) OR 0x30)) = drop_bit 4 (unat ((b AND 0x0F) OR 0x30))"
    by (rule unat_drop_bit_eq)
  also have "\<dots> = (48 + unat b mod 16) div 16"
    unfolding unat_stamp6 by (simp add: drop_bit_eq_div)
  also have "\<dots> = 3" by simp
  finally show ?thesis by (simp add: word_eq_iff_unsigned [where ?'a = nat])
qed

lemma top_bits_stamp8: "drop_bit 6 (((b::byte) AND 0x3F) OR 0x80) = 2"
proof -
  have "unat (drop_bit 6 ((b AND 0x3F) OR 0x80)) = drop_bit 6 (unat ((b AND 0x3F) OR 0x80))"
    by (rule unat_drop_bit_eq)
  also have "\<dots> = (128 + unat b mod 64) div 64"
    unfolding unat_stamp8 by (simp add: drop_bit_eq_div)
  also have "\<dots> = 2" by simp
  finally show ?thesis by (simp add: word_eq_iff_unsigned [where ?'a = nat])
qed

lemma offline_digest_bits:
  assumes "offline_digest u = Inr d"
  shows "length d = 16 \<and> drop_bit 4 (d ! 6) = 3 \<and> drop_bit 6 (d ! 8) = 2"
proof -
  from assms obtain bs where
    d: "d = ((md5 bs)[6 := (md5 bs ! 6 AND 0x0F) OR 0x30])[8 := (md5 bs ! 8 AND 0x3F) OR 0x80]"
    by (auto simp: offline_digest_def Let_def split: sum.splits)
  have l: "length (md5 bs) = 16" by (rule length_md5)
  show ?thesis
    unfolding d using l by (simp add: nth_list_update high_nibble_stamp6 top_bits_stamp8)
qed

lemma steve_digest:
  "offline_digest (py ''Steve'') =
     Inr [86, 39, 221, 152, 230, 190, 60, 33, 184, 168, 233, 35, 68, 24, 54, 65]"
  unfolding offline_digest_valid [OF steve_valid] steve_bytes steve_md5 steve_stamp ..

lemma steve_uuid:
  "offline_uuid (py ''Steve'') = Inr (py ''5627dd98-e6be-3c21-b8a8-e92344183641'')"
  by (simp add: offline_uuid_valid [OF steve_valid] steve_identifier)

lemma launch_offline_uuid:
  assumes "login_type_var st = py ''offline''"
    and "GetMinecraftCommand v d opts \<in> set (calls (launch env st))"
  shows "offline_uuid (strip (username_var st)) = Inr (opt_uuid opts)"
proof -
  from assms(2) obtain s where
    "build_session st (login_type_var st) (strip (username_var st)) = Inr s"
    "opts = build_options s (ram_var st)"
    using launch_command by blast
  with assms(1) show ?thesis
    by (auto simp: build_session_def offline_session_def build_options_def split: sum.splits)
qed

lemma strip_padded: "strip (py ''  Steve  '') = py ''Steve''"
  by (simp add: strip_def py_def ord_def isspace_def)

lemma padded_launcher_fields:
  "login_type_var padded_launcher = py ''offline''"
  "username_var padded_launcher = py ''  Steve  ''"
  "version_var padded_launcher = Vanilla" "ram_var padded_launcher = 4"
  "steve_launcher \<noteq> padded_launcher"
  by (simp_all add: padded_launcher_def steve_launcher_def py_eq_iff)

lemma padded_launch:
  "launch working_env padded_launcher =
     \<lparr>outcome = Done Vanilla,
      final = save_config working_env (persist padded_launcher (py ''offline'') (py ''Steve'') 4),
      calls = [GetMinecraftDirectory, GetInstalledVersions (py ''.minecraft''), GetLatestVersion,
               InstallMinecraftVersion (py ''1.21'') (py ''.minecraft''),
               GetMinecraftCommand (py ''1.21'') (py ''.minecraft'') steve_options,
               Popen [py ''java'', py ''-Xmx4G'', py ''-Xms2G'']]\<rparr>"
proof -
  note f = padded_launcher_fields
  have s: "build_session padded_launcher (py ''offline'') (py ''Steve'') =
      Inr \<lparr>session_name = py ''Steve'', session_id = py ''5627dd98-e6be-3c21-b8a8-e92344183641'',
          session_token = []\<rparr>"
    by (simp add: build_session_def steve_session)
  have "launch working_env padded_launcher =
     \<lparr>outcome = Done Vanilla,
      final = save_config working_env (persist padded_launcher (login_type_var padded_launcher)
                (strip (username_var padded_launcher)) (ram_var padded_launcher)),
      calls = GetMinecraftDirectory # [GetInstalledVersions (py ''.minecraft''), GetLatestVersion] @
        [InstallMinecraftVersion (py ''1.21'') (minecraft_directory working_env),
         GetMinecraftCommand (py ''1.21'') (minecraft_directory working_env)
           (build_options \<lparr>session_name = py ''Steve'',
              session_id = py ''5627dd98-e6be-3c21-b8a8-e92344183641'', session_token = []\<rparr>
              (ram_var padded_launcher)),
         Popen (py ''java'' # jvmArguments steve_options)]\<rparr>"
    by (rule launch_done)
       (simp_all add: f working_env_fields strip_padded steve_valid
          working_pick_vanilla s steve_build_options py_eq_iff)
  then show ?thesis
    by (simp add: f working_env_fields strip_padded steve_build_options)
       (simp add: steve_options_def)
qed

text \<open>
  C7. The identifier depends on the username alone: two offline launches with the same
  stripped username hand the same identifier to the library, whatever the environments and
  the rest of the two launchers. Bytes 6 and 8 of every stamped digest have high nibble 3
  and top bits 10. For \<open>"Steve"\<close> the digest and the identifier are the fixed values below.
\<close>

theorem identifier_deterministic:
  "(login_type_var st1 = py ''offline'' \<and> login_type_var st2 = py ''offline'' \<and>
    strip (username_var st1) = strip (username_var st2) \<and>
    GetMinecraftCommand v1 d1 o1 \<in> set (calls (launch env1 st1)) \<and>
    GetMinecraftCommand v2 d2 o2 \<in> set (calls (launch env2 st2)) \<longrightarrow>
      opt_uuid o1 = opt_uuid o2) \<and>
   (offline_digest username = Inr digest \<longrightarrow>
      length digest = 16 \<and> drop_bit 4 (digest ! 6) = 3 \<and> drop_bit 6 (digest ! 8) = 2) \<and>
   offline_digest (py ''Steve'') =
     Inr [86, 39, 221, 152, 230, 190, 60, 33, 184, 168, 233, 35, 68, 24, 54, 65] \<and>
   offline_uuid (py ''Steve'') = Inr (py ''5627dd98-e6be-3c21-b8a8-e92344183641'')"
proof (intro conjI impI)
  assume a: "login_type_var st1 = py ''offline'' \<and> login_type_var st2 = py ''offline'' \<and>
    strip (username_var st1) = strip (username_var st2) \<and>
    GetMinecraftCommand v1 d1 o1 \<in> set (calls (launch env1 st1)) \<and>
    GetMinecraftCommand v2 d2 o2 \<in> set (calls (launch env2 st2))"
  then have "offline_uuid (strip (username_var st1)) = Inr (opt_uuid o1)"
    and "offline_uuid (strip (username_var st2)) = Inr (opt_uuid o2)"
    by (blast intro: launch_offline_uuid)+
  with a show "opt_uuid o1 = opt_uuid o2" by simp
next
  assume "offline_digest username = Inr digest"
  then show "length digest = 16" "drop_bit 4 (digest ! 6) = 3" "drop_bit 6 (digest ! 8) = 2"
    by (simp_all add: offline_digest_bits)
next
  show "offline_digest (py ''Steve'') =
     Inr [86, 39, 221, 152, 230, 190, 60, 33, 184, 168, 233, 35, 68, 24, 54, 65]"
    by (rule steve_digest)
  show "offline_uuid (py ''Steve'') = Inr (py ''5627dd98-e6be-3c21-b8a8-e92344183641'')"
    by (rule steve_uuid)
qed

theorem identifier_deterministic_witness:
  "login_type_var steve_launcher = py ''offline'' \<and> login_type_var padded_launcher = py ''offline'' \<and>
   strip (username_var steve_launcher) = strip (username_var padded_launcher) \<and>
   steve_launcher \<noteq> padded_launcher \<and>
   GetMinecraftCommand (py ''1.21'') (py ''.minecraft'') steve_options
     \<in> set (calls (launch working_env steve_launcher)) \<and>
   GetMinecraftCommand (py ''1.21'') (py ''.minecraft'') steve_options
     \<in> set (calls (launch working_env padded_launcher)) \<and>
   offline_digest (py ''Steve'') =
     Inr [86, 39, 221, 152, 230, 190, 60, 33, 184, 168, 233, 35, 68, 24, 54, 65] \<and>
   drop_bit 4 ([86, 39, 221, 152, 230, 190, 60, 33, 184, 168, 233, 35, 68, 24, 54, 65 :: byte] ! 6) = 3 \<and>
   drop_bit 6 ([86, 39, 221, 152, 230, 190, 60, 33, 184, 168, 233, 35, 68, 24, 54, 65 :: byte] ! 8) = 2"
  using identifier_deterministic [of steve_launcher padded_launcher
      "py ''1.21''" "py ''.minecraft''" steve_options working_env
      "py ''1.21''" "py ''.minecraft''" steve_options working_env
      "py ''Steve''" "[86, 39, 221, 152, 230, 190, 60, 33, 184, 168, 233, 35, 68, 24, 54, 65]"]
  by (simp add: steve_launch padded_launch steve_launcher_fields padded_launcher_fields
        strip_steve strip_padded)

section \<open>Stripping, and what a launch leaves behind\<close>

lemma validate_username_chars:
  "validate_username name \<Longrightarrow> name \<noteq> [] \<and> list_all char_class name"
  by (simp add: validate_username_def fullmatch_class_plus_iff)

lemma char_class_not_space: "char_class c \<Longrightarrow> \<not> isspace c"
  by (auto simp: char_class_def isspace_def ord_def)

lemma dropWhile_surrounded:
  assumes "list_all P before" and "w \<noteq> []" and "\<not> P (hd w)"
  shows "dropWhile P (before @ w @ after) = w @ after"
proof -
  from assms(2) obtain a w' where w: "w = a # w'" by (cases w) auto
  from assms(1) have "dropWhile P (before @ w @ after) = dropWhile P (w @ after)"
    by (simp add: dropWhile_append2 list_all_iff)
  with assms(3) w show ?thesis by simp
qed

lemma strip_surrounded:
  assumes "list_all isspace before" and "list_all isspace after"
    and "w \<noteq> []" and "\<not> isspace (hd w)" and "\<not> isspace (last w)"
  shows "strip (before @ w @ after) = w"
proof -
  have "dropWhile isspace (before @ w @ after) = w @ after"
    using assms(1,3,4) by (rule dropWhile_surrounded)
  moreover have "dropWhile isspace (rev after @ rev w @ []) = rev w @ []"
    using assms(2,3,5) by (intro dropWhile_surrounded) (simp_all add: hd_rev)
  ultimately show ?thesis by (simp add: strip_def)
qed

lemma strip_valid:
  assumes "validate_username w" and "list_all isspace before" and "list_all isspace after"
  shows "strip (before @ w @ after) = w"
proof -
  from assms(1) have n: "w \<noteq> []" and c: "list_all char_class w"
    by (simp_all add: validate_username_chars)
  from n c have "char_class (hd w)" "char_class (last w)"
    by (simp_all add: list_all_iff)
  then have "\<not> isspace (hd w)" "\<not> isspace (last w)"
    by (simp_all add: char_class_not_space)
  with assms(2,3) n show ?thesis by (simp add: strip_surrounded)
qed

lemma padded_invalid:
  assumes "list_all isspace before" and "list_all isspace after" and "before @ after \<noteq> []"
  shows "\<not> validate_username (before @ w @ after)"
proof
  assume "validate_username (before @ w @ after)"
  then have c: "list_all char_class (before @ w @ after)"
    by (rule validate_username_chars [THEN conjunct2])
  from assms(3) obtain x where "x \<in> set before \<union> set after"
    by (cases before; cases after) auto
  with assms(1,2) c have "isspace x" "char_class x"
    by (auto simp: list_all_iff)
  then show False by (simp add: char_class_not_space)
qed

lemma launch_final:
  "final (launch env st) =
     (if (login_type_var st = py ''offline'' \<and> \<not> validate_username (strip (username_var st))) \<or>
         (login_type_var st = py ''microsoft'' \<and> ms_profile st = None)
      then st
      else save_config env
             (persist st (login_type_var st) (strip (username_var st)) (ram_var st)))"
  by (simp add: launch_def Let_def start_game_def
           split: prod.splits sum.splits option.splits)

lemma launch_outcome_invalid:
  "outcome (launch env st) = Failed InvalidUsername \<longleftrightarrow>
     login_type_var st = py ''offline'' \<and> \<not> validate_username (strip (username_var st))"
  by (simp add: launch_def Let_def start_game_def
           split: prod.splits sum.splits option.splits)

lemma launch_outcome_unauthenticated:
  "outcome (launch env st) = Failed NotAuthenticated \<longleftrightarrow>
     \<not> (login_type_var st = py ''offline'' \<and> \<not> validate_username (strip (username_var st))) \<and>
     login_type_var st = py ''microsoft'' \<and> ms_profile st = None"
  by (simp add: launch_def Let_def start_game_def
           split: prod.splits sum.splits option.splits)

lemma config_keys_distinct:
  "py ''offline_username'' \<noteq> py ''login_type''" "py ''offline_username'' \<noteq> py ''ram''"
  "py ''login_type'' \<noteq> py ''ram''" "py ''offline'' \<noteq> py ''microsoft''"
  by (simp_all add: py_eq_iff)

lemma config_save_config: "config (save_config env st) = config st"
  by (simp add: save_config_def split: save_outcome.splits)

lemma pref_file_save_config:
  "pref_file (save_config env st) =
     (case save_outcome env of Saved \<Rightarrow> JsonFile (config st) | SaveFailed f \<Rightarrow> f)"
  by (simp add: save_config_def split: save_outcome.splits)

lemma config_persist:
  "config (persist st l u r) k =
     (if k = py ''ram'' then Some (PInt r)
      else if k = py ''login_type'' then Some (PStr l)
      else if k = py ''offline_username'' \<and> l = py ''offline'' then Some (PStr u)
      else config st k)"
  by (simp add: persist_def Let_def)

section \<open>Start-up, login and the session block\<close>

text \<open>What \<open>_save_config\<close> wrote is what \<open>_load_config\<close> reads at the next start.\<close>

lemma load_after_save:
  "save_outcome env = Saved \<Longrightarrow> config (load_config (save_config env st)) = config st"
  by (simp add: load_config_def save_config_def)

text \<open>After \<open>_login_with_ms\<close> no attempt fails for want of authentication.\<close>

lemma launch_after_login:
  "outcome (launch env (login_with_ms fresh_uuid st)) \<noteq> Failed NotAuthenticated"
  by (simp add: launch_outcome_unauthenticated login_with_ms_def)

text \<open>
  In offline mode the session block never raises: the name has passed the validator, so
  it is ASCII and its encoding succeeds.
\<close>

lemma offline_launch_caught:
  assumes "login_type_var st = py ''offline''"
  shows "outcome (launch env st) \<noteq> Uncaught e"
proof (cases "validate_username (strip (username_var st))")
  case False
  with assms show ?thesis by (simp add: launch_def Let_def)
next
  case True
  then have "build_session st (py ''offline'') (strip (username_var st)) =
      Inr \<lparr>session_name = strip (username_var st),
           session_id = spec_identifier (strip (username_var st)), session_token = []\<rparr>"
    by (simp add: build_session_def offline_session_valid)
  with assms True show ?thesis
    by (simp add: launch_def Let_def build_session_frame start_game_def
          split: prod.splits sum.splits option.splits)
qed

section \<open>Stripped usernames and persisted preferences\<close>

text \<open>
  C8. The handler strips the entered name before it validates, persists and builds the
  session. A valid name typed with whitespace around it is accepted: the attempt does not
  fail for the username, the stripped name is what is persisted, what the session is
  built from and what every command of the launch carries. The padded text itself is not
  a valid username.
\<close>

theorem stripped_username_accepted:
  "validate_username w \<Longrightarrow> list_all isspace before \<Longrightarrow> list_all isspace after \<Longrightarrow>
   login_type_var st = py ''offline'' \<Longrightarrow> username_var st = before @ w @ after \<Longrightarrow>
     strip (username_var st) = w \<and>
     outcome (launch env st) \<noteq> Failed InvalidUsername \<and>
     outcome (launch env st) \<noteq> Failed NotAuthenticated \<and>
     config (final (launch env st)) (py ''offline_username'') = Some (PStr w) \<and>
     build_session st (login_type_var st) (strip (username_var st)) =
       Inr \<lparr>session_name = w, session_id = spec_identifier w, session_token = []\<rparr> \<and>
     (GetMinecraftCommand v d opts \<in> set (calls (launch env st)) \<longrightarrow> opt_username opts = w) \<and>
     (before @ after \<noteq> [] \<longrightarrow> \<not> validate_username (before @ w @ after))"
proof (intro conjI impI)
  assume valid: "validate_username w" and b: "list_all isspace before"
    and a: "list_all isspace after" and off: "login_type_var st = py ''offline''"
    and u: "username_var st = before @ w @ after"
  show s: "strip (username_var st) = w"
    unfolding u using valid b a by (rule strip_valid)
  from s valid off show "outcome (launch env st) \<noteq> Failed InvalidUsername"
    by (simp add: launch_outcome_invalid)
  from off show "outcome (launch env st) \<noteq> Failed NotAuthenticated"
    by (simp add: launch_outcome_unauthenticated config_keys_distinct)
  from s valid off show "config (final (launch env st)) (py ''offline_username'') = Some (PStr w)"
    by (simp add: launch_final config_save_config config_persist config_keys_distinct)
  from s valid off show bs: "build_session st (login_type_var st) (strip (username_var st)) =
       Inr \<lparr>session_name = w, session_id = spec_identifier w, session_token = []\<rparr>"
    by (simp add: build_session_def offline_session_valid)
  {
    assume "GetMinecraftCommand v d opts \<in> set (calls (launch env st))"
    then obtain session where
      "build_session st (login_type_var st) (strip (username_var st)) = Inr session"
      "opts = build_options session (ram_var st)"
      using launch_command by blast
    with bs show "opt_username opts = w"
      by (auto simp: build_options_def)
  }
  {
    assume "before @ after \<noteq> []"
    with b a show "\<not> validate_username (before @ w @ after)"
      by (rule padded_invalid)
  }
qed

theorem stripped_username_accepted_witness:
  "validate_username (py ''Steve'') \<and> list_all isspace (py ''  '') \<and>
   login_type_var padded_launcher = py ''offline'' \<and>
   username_var padded_launcher = py ''  '' @ py ''Steve'' @ py ''  '' \<and>
   py ''  '' @ py ''  '' \<noteq> [] \<and>
   strip (username_var padded_launcher) = py ''Steve'' \<and>
   \<not> validate_username (py ''  '' @ py ''Steve'' @ py ''  '') \<and>
   outcome (launch working_env padded_launcher) = Done Vanilla \<and>
   GetMinecraftCommand (py ''1.21'') (py ''.minecraft'') steve_options
     \<in> set (calls (launch working_env padded_launcher)) \<and>
   opt_username steve_options = py ''Steve''"
proof -
  have sp: "list_all isspace (py ''  '')"
    by (simp add: py_def ord_def isspace_def)
  have u: "username_var padded_launcher = py ''  '' @ py ''Steve'' @ py ''  ''"
    by (simp add: padded_launcher_fields py_def)
  have ne: "py ''  '' @ py ''  '' \<noteq> []" by (simp add: py_def)
  from stripped_username_accepted [OF steve_valid sp sp padded_launcher_fields(1) u,
      of working_env "py ''1.21''" "py ''.minecraft''" steve_options]
  show ?thesis
    using sp u ne by (simp add: steve_valid padded_launcher_fields(1) padded_launch)
qed

text \<open>
  C3, as the code has it. A launch attempt that fails validation (invalid username, not
  authenticated) leaves the launcher and the preferences file as they were. Every other
  attempt has saved the updated configuration before it looks for the library, so the
  file is overwritten whether the attempt then succeeds or fails. Shutdown saves too.
\<close>

theorem preferences_written_after_validation:
  "(outcome (launch env st) = Failed InvalidUsername \<or>
    outcome (launch env st) = Failed NotAuthenticated \<longrightarrow>
      final (launch env st) = st \<and> pref_file (final (launch env st)) = pref_file st) \<and>
   (outcome (launch env st) \<noteq> Failed InvalidUsername \<and>
    outcome (launch env st) \<noteq> Failed NotAuthenticated \<and> save_outcome env = Saved \<longrightarrow>
      pref_file (final (launch env st)) =
        JsonFile (config (persist st (login_type_var st) (strip (username_var st)) (ram_var st)))) \<and>
   (save_outcome env = Saved \<longrightarrow> pref_file (on_close env st) = JsonFile (config st))"
  by (auto simp: launch_final launch_outcome_invalid launch_outcome_unauthenticated
        pref_file_save_config on_close_def)

lemma short_launch:
  "launch working_env short_launcher =
     \<lparr>outcome = Failed InvalidUsername, final = short_launcher, calls = []\<rparr>"
  using short_invalid by (simp add: launch_def Let_def short_launcher_def steve_launcher_def)

lemma failing_launch:
  "launch failing_env steve_launcher =
     \<lparr>outcome = Failed (VersionResolutionError (LibraryError (py ''unreachable''))),
      final = save_config failing_env (persist steve_launcher (py ''offline'') (py ''Steve'') 4),
      calls = [GetMinecraftDirectory, GetInstalledVersions (py ''.minecraft'')]\<rparr>"
proof -
  have p: "pick_version failing_env (py ''.minecraft'') Vanilla =
      (Inl (LibraryError (py ''unreachable'')), [GetInstalledVersions (py ''.minecraft'')])"
    by (simp add: pick_version_def failing_env_def)
  have e: "library_present failing_env" "minecraft_directory failing_env = py ''.minecraft''"
    by (simp_all add: failing_env_def working_env_def)
  show ?thesis
    unfolding launch_def Let_def
    by (simp add: steve_launcher_fields strip_steve steve_valid e p config_keys_distinct)
qed

theorem preferences_written_after_validation_witness:
  "(outcome (launch working_env short_launcher) = Failed InvalidUsername \<or>
    outcome (launch working_env short_launcher) = Failed NotAuthenticated) \<and>
   pref_file (final (launch working_env short_launcher)) = pref_file short_launcher \<and>
   outcome (launch working_env steve_launcher) \<noteq> Failed InvalidUsername \<and>
   outcome (launch working_env steve_launcher) \<noteq> Failed NotAuthenticated \<and>
   save_outcome working_env = Saved \<and>
   pref_file (final (launch working_env steve_launcher)) =
     JsonFile (config (persist steve_launcher (py ''offline'') (py ''Steve'') 4)) \<and>
   pref_file (on_close working_env steve_launcher) = JsonFile (config steve_launcher)"
  using preferences_written_after_validation [of working_env short_launcher]
    preferences_written_after_validation [of working_env steve_launcher]
  by (simp add: short_launch steve_launch working_env_fields steve_launcher_fields strip_steve)

text \<open>
  The claim as the specification words it fails: with the library unable to list the
  installed versions, the attempt for \<open>"Steve"\<close> ends in \<open>Failed\<close> with a
  version-resolution error, and the preferences file, absent before, has been written.
\<close>

theorem failed_launch_overwrites_preferences:
  "outcome (launch failing_env steve_launcher) =
     Failed (VersionResolutionError (LibraryError (py ''unreachable''))) \<and>
   pref_file steve_launcher = NoFile \<and>
   pref_file (final (launch failing_env steve_launcher)) =
     JsonFile (config (persist steve_launcher (py ''offline'') (py ''Steve'') 4)) \<and>
   pref_file (final (launch failing_env steve_launcher)) \<noteq> pref_file steve_launcher"
  by (simp add: failing_launch pref_file_save_config steve_launcher_fields)
     (simp add: failing_env_def working_env_def)

text \<open>
  C9. An attempt that passes validation changes the configuration only at the keys
  \<open>offline_username\<close>, \<open>login_type\<close> and \<open>ram\<close>, and at \<open>offline_username\<close> only in
  offline mode. Every other key keeps its value, and the dictionary that the write puts
  into the preferences file is this configuration.
\<close>

theorem persist_frame:
  "\<not> (login_type_var st = py ''offline'' \<and> \<not> validate_username (strip (username_var st))) \<Longrightarrow>
   \<not> (login_type_var st = py ''microsoft'' \<and> ms_profile st = None) \<Longrightarrow>
     (\<forall>k. k \<noteq> py ''offline_username'' \<and> k \<noteq> py ''login_type'' \<and> k \<noteq> py ''ram'' \<longrightarrow>
        config (final (launch env st)) k = config st k) \<and>
     (login_type_var st \<noteq> py ''offline'' \<longrightarrow>
        config (final (launch env st)) (py ''offline_username'') = config st (py ''offline_username'')) \<and>
     (save_outcome env = Saved \<longrightarrow>
        (\<exists>c. pref_file (final (launch env st)) = JsonFile c \<and>
             c = config (final (launch env st)) \<and>
             (\<forall>k. k \<noteq> py ''offline_username'' \<and> k \<noteq> py ''login_type'' \<and> k \<noteq> py ''ram'' \<longrightarrow>
                c k = config st k)))"
  by (auto simp: launch_final config_save_config config_persist config_keys_distinct
        pref_file_save_config)

theorem persist_frame_witness:
  "\<not> (login_type_var themed_launcher = py ''offline'' \<and>
       \<not> validate_username (strip (username_var themed_launcher))) \<and>
   \<not> (login_type_var themed_launcher = py ''microsoft'' \<and> ms_profile themed_launcher = None) \<and>
   save_outcome working_env = Saved \<and>
   py ''theme'' \<noteq> py ''offline_username'' \<and> py ''theme'' \<noteq> py ''login_type'' \<and>
   py ''theme'' \<noteq> py ''ram'' \<and>
   config themed_launcher (py ''theme'') = Some (PStr (py ''dark'')) \<and>
   config (final (launch working_env themed_launcher)) (py ''theme'') = Some (PStr (py ''dark'')) \<and>
   pref_file (final (launch working_env themed_launcher)) =
     JsonFile (config (final (launch working_env themed_launcher)))"
  using persist_frame [of themed_launcher working_env]
  by (simp add: themed_launcher_def steve_launcher_def strip_steve steve_valid working_env_fields
        py_eq_iff)

section \<open>Version resolution\<close>

lemma starts_with_iff: "starts_with sub s \<longleftrightarrow> (\<exists>after. s = sub @ after)"
  by (induction sub s rule: starts_with.induct) auto

lemma str_in_iff: "str_in sub s \<longleftrightarrow> (\<exists>before after. s = before @ sub @ after)"
proof (induction s)
  case Nil
  then show ?case by auto
next
  case (Cons c cs)
  show ?case
  proof
    assume "str_in sub (c # cs)"
    then consider "starts_with sub (c # cs)" | "str_in sub cs" by auto
    then show "\<exists>before after. c # cs = before @ sub @ after"
    proof cases
      case 1
      then obtain after where "c # cs = [] @ sub @ after"
        by (auto simp: starts_with_iff)
      then show ?thesis by blast
    next
      case 2
      with Cons.IH obtain before after where "cs = before @ sub @ after" by blast
      then have "c # cs = (c # before) @ sub @ after" by simp
      then show ?thesis by blast
    qed
  next
    assume "\<exists>before after. c # cs = before @ sub @ after"
    then obtain before after where e: "c # cs = before @ sub @ after" by blast
    show "str_in sub (c # cs)"
    proof (cases before)
      case Nil
      with e have "starts_with sub (c # cs)" by (auto simp: starts_with_iff)
      then show ?thesis by simp
    next
      case (Cons b before')
      with e have "cs = before' @ sub @ after" by simp
      with Cons.IH have "str_in sub cs" by blast
      then show ?thesis by simp
    qed
  qed
qed

lemma id_contains_iff: "name \<noteq> [] \<Longrightarrow> id_contains name v \<longleftrightarrow> spec_matches name v"
  by (cases "id_key v")
     (auto simp: id_contains_def spec_matches_def spec_contains_ci_def str_in_iff lower_def)

lemma first_match_none:
  "\<forall>u\<in>set vs. \<not> id_contains name u \<Longrightarrow> first_match name vs = None"
  by (induction vs) simp_all

lemma first_match_first:
  "\<forall>u\<in>set before. \<not> id_contains name u \<Longrightarrow> id_contains name v \<Longrightarrow>
     first_match name (before @ v # after) = id_key v"
  by (induction before) simp_all

lemma spec_contains_ci_nonempty:
  "name \<noteq> [] \<Longrightarrow> spec_contains_ci name ident \<Longrightarrow> ident \<noteq> []"
  by (auto simp: spec_contains_ci_def lower_def)

lemma pick_version_vanilla:
  "installed_versions env d = Inr installed \<Longrightarrow> latest_version env = Inr lv \<Longrightarrow>
     fst (pick_version env d Vanilla) = Inr (release lv, Vanilla)"
  by (simp add: pick_version_def select_version_def falsy_def)

lemma select_version_loader:
  "select_version env Forge installed = (Inr (first_match (py ''forge'') installed), [])"
  "select_version env Fabric installed = (Inr (first_match (py ''fabric'') installed), [])"
  by (simp_all add: select_version_def)

lemma loader_cases:
  assumes "(g, name) \<in> {(Forge, py ''forge''), (Fabric, py ''fabric'')}"
  shows "select_version env g installed = (Inr (first_match name installed), [])"
    and "name \<noteq> []" and "g \<noteq> Vanilla"
  using assms by (auto simp: select_version_loader py_def)

lemma pick_version_match:
  assumes "installed_versions env d = Inr installed"
    and "(g, name) \<in> {(Forge, py ''forge''), (Fabric, py ''fabric'')}"
    and "installed = before @ v # after"
    and "\<forall>u\<in>set before. \<not> spec_matches name u"
    and "id_key v = Some ident" and "spec_contains_ci name ident"
  shows "fst (pick_version env d g) = Inr (ident, g)"
proof -
  note l = loader_cases [OF assms(2)]
  have m: "id_contains name v"
    using assms(5,6) l(2) by (auto simp: id_contains_iff spec_matches_def)
  have "\<forall>u\<in>set before. \<not> id_contains name u"
    using assms(4) l(2) by (simp add: id_contains_iff)
  then have f: "first_match name installed = Some ident"
    unfolding assms(3) using m assms(5) by (simp add: first_match_first)
  have "ident \<noteq> []"
    using l(2) assms(6) by (rule spec_contains_ci_nonempty)
  then show ?thesis
    by (simp add: pick_version_def assms(1) l(1) f falsy_def)
qed

lemma pick_version_fallback:
  assumes "installed_versions env d = Inr installed"
    and "(g, name) \<in> {(Forge, py ''forge''), (Fabric, py ''fabric'')}"
    and "\<forall>u\<in>set installed. \<not> spec_matches name u"
    and "latest_version env = Inr lv"
  shows "fst (pick_version env d g) = Inr (release lv, Vanilla)"
proof -
  note l = loader_cases [OF assms(2)]
  have "\<forall>u\<in>set installed. \<not> id_contains name u"
    using assms(3) l(2) by (simp add: id_contains_iff)
  then have f: "first_match name installed = None"
    by (rule first_match_none)
  show ?thesis
    by (simp add: pick_version_def assms(1,4) l(1) f falsy_def)
qed

text \<open>
  C2. With the installed versions listed: the default edition resolves to the latest
  release, whatever the list holds; a modloader edition resolves to the identifier of the
  first installed version whose lowercased identifier contains the loader's name; and
  when no installed version does, resolution gives the latest release and the edition
  \<open>Vanilla\<close> in place of the requested one.
\<close>

theorem version_resolution:
  "installed_versions env mc_dir = Inr installed \<Longrightarrow>
     (latest_version env = Inr lv \<longrightarrow>
        fst (pick_version env mc_dir Vanilla) = Inr (release lv, Vanilla)) \<and>
     ((g, name) \<in> {(Forge, py ''forge''), (Fabric, py ''fabric'')} \<longrightarrow>
        (installed = before @ v # after \<and> (\<forall>u\<in>set before. \<not> spec_matches name u) \<and>
         id_key v = Some ident \<and> spec_contains_ci name ident \<longrightarrow>
           fst (pick_version env mc_dir g) = Inr (ident, g)) \<and>
        ((\<forall>u\<in>set installed. \<not> spec_matches name u) \<and> latest_version env = Inr lv \<longrightarrow>
           fst (pick_version env mc_dir g) = Inr (release lv, Vanilla) \<and> g \<noteq> Vanilla))"
  using pick_version_vanilla [of env mc_dir installed lv]
    pick_version_match [of env mc_dir installed g name before v after ident]
    pick_version_fallback [of env mc_dir installed g name lv]
    loader_cases(3) [of g name]
  by blast


lemma forge_evaluation:
  "\<not> spec_matches (py ''forge'') \<lparr>id_key = Some (py ''1.20.4'')\<rparr>"
  "\<not> spec_matches (py ''forge'') \<lparr>id_key = None\<rparr>"
  "spec_contains_ci (py ''forge'') (py ''1.20.1-Forge-47.2.0'')"
proof -
  have n: "py ''forge'' \<noteq> []" by (simp add: py_def)
  show "\<not> spec_matches (py ''forge'') \<lparr>id_key = Some (py ''1.20.4'')\<rparr>"
    unfolding id_contains_iff [OF n, symmetric]
    by (simp add: id_contains_def lower_def lower_cp_def py_def ord_def)
  show "\<not> spec_matches (py ''forge'') \<lparr>id_key = None\<rparr>"
    by (simp add: spec_matches_def)
  have "spec_matches (py ''forge'') \<lparr>id_key = Some (py ''1.20.1-Forge-47.2.0'')\<rparr>"
    unfolding id_contains_iff [OF n, symmetric]
    by (simp add: id_contains_def lower_def lower_cp_def py_def ord_def)
  then show "spec_contains_ci (py ''forge'') (py ''1.20.1-Forge-47.2.0'')"
    by (simp add: spec_matches_def)
qed

lemma fabric_evaluation:
  "\<not> spec_matches (py ''fabric'') \<lparr>id_key = Some (py ''1.20.4'')\<rparr>"
  "\<not> spec_matches (py ''fabric'') \<lparr>id_key = None\<rparr>"
  "\<not> spec_matches (py ''fabric'') \<lparr>id_key = Some (py ''1.20.1-Forge-47.2.0'')\<rparr>"
  "\<not> spec_matches (py ''fabric'') \<lparr>id_key = Some (py ''1.20.1-forge-47.1.0'')\<rparr>"
proof -
  have n: "py ''fabric'' \<noteq> []" by (simp add: py_def)
  show "\<not> spec_matches (py ''fabric'') \<lparr>id_key = Some (py ''1.20.4'')\<rparr>"
    unfolding id_contains_iff [OF n, symmetric]
    by (simp add: id_contains_def lower_def lower_cp_def py_def ord_def)
  show "\<not> spec_matches (py ''fabric'') \<lparr>id_key = None\<rparr>"
    by (simp add: spec_matches_def)
  show "\<not> spec_matches (py ''fabric'') \<lparr>id_key = Some (py ''1.20.1-Forge-47.2.0'')\<rparr>"
    unfolding id_contains_iff [OF n, symmetric]
    by (simp add: id_contains_def lower_def lower_cp_def py_def ord_def)
  show "\<not> spec_matches (py ''fabric'') \<lparr>id_key = Some (py ''1.20.1-forge-47.1.0'')\<rparr>"
    unfolding id_contains_iff [OF n, symmetric]
    by (simp add: id_contains_def lower_def lower_cp_def py_def ord_def)
qed

lemma working_installed:
  "installed_versions working_env d =
     Inr ([\<lparr>id_key = Some (py ''1.20.4'')\<rparr>, \<lparr>id_key = None\<rparr>] @
          \<lparr>id_key = Some (py ''1.20.1-Forge-47.2.0'')\<rparr> #
          [\<lparr>id_key = Some (py ''1.20.1-forge-47.1.0'')\<rparr>])"
  "latest_version working_env = Inr \<lparr>release = py ''1.21'', snapshot = py ''24w14a''\<rparr>"
  by (simp_all add: working_env_def)

theorem version_resolution_witness:
  "installed_versions working_env (py ''.minecraft'') =
     Inr ([\<lparr>id_key = Some (py ''1.20.4'')\<rparr>, \<lparr>id_key = None\<rparr>] @
          \<lparr>id_key = Some (py ''1.20.1-Forge-47.2.0'')\<rparr> #
          [\<lparr>id_key = Some (py ''1.20.1-forge-47.1.0'')\<rparr>]) \<and>
   latest_version working_env = Inr \<lparr>release = py ''1.21'', snapshot = py ''24w14a''\<rparr> \<and>
   \<not> spec_matches (py ''forge'') \<lparr>id_key = Some (py ''1.20.4'')\<rparr> \<and>
   \<not> spec_matches (py ''forge'') \<lparr>id_key = None\<rparr> \<and>
   spec_contains_ci (py ''forge'') (py ''1.20.1-Forge-47.2.0'') \<and>
   fst (pick_version working_env (py ''.minecraft'') Vanilla) = Inr (py ''1.21'', Vanilla) \<and>
   fst (pick_version working_env (py ''.minecraft'') Forge) = Inr (py ''1.20.1-Forge-47.2.0'', Forge) \<and>
   \<not> spec_matches (py ''fabric'') \<lparr>id_key = Some (py ''1.20.4'')\<rparr> \<and>
   \<not> spec_matches (py ''fabric'') \<lparr>id_key = None\<rparr> \<and>
   \<not> spec_matches (py ''fabric'') \<lparr>id_key = Some (py ''1.20.1-Forge-47.2.0'')\<rparr> \<and>
   \<not> spec_matches (py ''fabric'') \<lparr>id_key = Some (py ''1.20.1-forge-47.1.0'')\<rparr> \<and>
   fst (pick_version working_env (py ''.minecraft'') Fabric) = Inr (py ''1.21'', Vanilla)"
  using version_resolution [where env = working_env and mc_dir = "py ''.minecraft''"
      and lv = "\<lparr>release = py ''1.21'', snapshot = py ''24w14a''\<rparr>"
      and g = Forge and name = "py ''forge''"
      and before = "[\<lparr>id_key = Some (py ''1.20.4'')\<rparr>, \<lparr>id_key = None\<rparr>]"
      and v = "\<lparr>id_key = Some (py ''1.20.1-Forge-47.2.0'')\<rparr>"
      and after = "[\<lparr>id_key = Some (py ''1.20.1-forge-47.1.0'')\<rparr>]"
      and ident = "py ''1.20.1-Forge-47.2.0''", OF working_installed(1)]
    version_resolution [where env = working_env and mc_dir = "py ''.minecraft''"
      and lv = "\<lparr>release = py ''1.21'', snapshot = py ''24w14a''\<rparr>"
      and g = Fabric and name = "py ''fabric''", OF working_installed(1)]
  by (simp add: working_installed forge_evaluation fabric_evaluation)

end
